theory Spec2Isabelle
  imports Complex_Main "HOL-Library.Log_Nat" "HOL-Library.Multiset"
begin

section \<open>JavaScript values\<close>

subsection \<open>Numbers\<close>

text \<open>
  A JavaScript Number is an IEEE-754 binary64 value. \<open>Fin q\<close> is the finite double whose
  exact value is the rational \<open>q\<close>; the two zeros are identified, since no operation of the
  modelled code tells them apart (every division is by a positive array length).
\<close>

datatype number = Fin rat | PInf | NInf | NaN

text \<open>
  Rounding to nearest, ties to even. \<open>flog2 x\<close> is the binary exponent of a positive
  rational, the floor of its logarithm to base 2, found from the bit lengths of numerator
  and denominator.
  \<open>ulp_exp a\<close> is the exponent of the spacing of the doubles around \<open>a\<close>: 52 below the
  binary exponent, and never below \<open>-1074\<close>, the spacing of the subnormals.
  \<open>round_mag a\<close> rounds a magnitude to that grid; \<open>round_double\<close> adds the sign and
  the overflow to infinity.
\<close>

definition flog2 :: "rat \<Rightarrow> int" where
  "flog2 x = (case quotient_of x of (p, q) \<Rightarrow>
      let d = bitlen p - bitlen q in if 2 powi d \<le> x then d else d - 1)"

definition round_half_even :: "rat \<Rightarrow> int" where
  "round_half_even q =
     (let f = \<lfloor>q\<rfloor>; r = q - of_int f
      in if r < 1 / 2 then f else if 1 / 2 < r then f + 1 else if even f then f else f + 1)"

definition ulp_exp :: "rat \<Rightarrow> int" where
  "ulp_exp a = max (flog2 a - 52) (- 1074)"

definition round_mag :: "rat \<Rightarrow> rat" where
  "round_mag a = of_int (round_half_even (a / 2 powi ulp_exp a)) * 2 powi ulp_exp a"

definition round_double :: "rat \<Rightarrow> number" where
  "round_double x =
     (let y = round_mag \<bar>x\<bar>
      in if 2 ^ 1024 \<le> y then (if 0 < x then PInf else NInf)
         else Fin (if 0 < x then y else - y))"

text \<open>A rational is a double when rounding leaves it alone. A decimal literal of the
  source denotes the double nearest to it.\<close>

definition is_double :: "rat \<Rightarrow> bool" where
  "is_double q = (round_double q = Fin q)"

definition lit :: "rat \<Rightarrow> number" where
  "lit q = round_double q"

text \<open>
  The operators \<open>+ - * /\<close>, \<open>Math.abs\<close>, and the comparisons \<open>< <= >\<close>. A comparison
  with \<open>NaN\<close> is false. A zero divisor is taken as the positive zero.
\<close>

fun fneg :: "number \<Rightarrow> number" where
  "fneg (Fin a) = Fin (- a)"
| "fneg PInf = NInf"
| "fneg NInf = PInf"
| "fneg NaN = NaN"

fun fadd :: "number \<Rightarrow> number \<Rightarrow> number" where
  "fadd (Fin a) (Fin b) = round_double (a + b)"
| "fadd NaN y = NaN"
| "fadd x NaN = NaN"
| "fadd PInf NInf = NaN"
| "fadd NInf PInf = NaN"
| "fadd PInf y = PInf"
| "fadd NInf y = NInf"
| "fadd x PInf = PInf"
| "fadd x NInf = NInf"

definition fsub :: "number \<Rightarrow> number \<Rightarrow> number" where
  "fsub x y = fadd x (fneg y)"

fun sign_of :: "number \<Rightarrow> int" where
  "sign_of (Fin a) = (if a = 0 then 0 else if 0 < a then 1 else - 1)"
| "sign_of PInf = 1"
| "sign_of NInf = - 1"
| "sign_of NaN = 0"

fun fmul :: "number \<Rightarrow> number \<Rightarrow> number" where
  "fmul (Fin a) (Fin b) = round_double (a * b)"
| "fmul NaN y = NaN"
| "fmul x NaN = NaN"
| "fmul x y = (if sign_of x * sign_of y = 0 then NaN
               else if 0 < sign_of x * sign_of y then PInf else NInf)"

fun fdiv :: "number \<Rightarrow> number \<Rightarrow> number" where
  "fdiv (Fin a) (Fin b) =
     (if b = 0 then (if a = 0 then NaN else if 0 < a then PInf else NInf)
      else round_double (a / b))"
| "fdiv NaN y = NaN"
| "fdiv x NaN = NaN"
| "fdiv (Fin a) y = Fin 0"
| "fdiv x (Fin b) = (if 0 \<le> sign_of (Fin b) then x else fneg x)"
| "fdiv x y = NaN"

fun fabs :: "number \<Rightarrow> number" where
  "fabs (Fin a) = Fin \<bar>a\<bar>"
| "fabs PInf = PInf"
| "fabs NInf = PInf"
| "fabs NaN = NaN"

fun lt :: "number \<Rightarrow> number \<Rightarrow> bool" where
  "lt (Fin a) (Fin b) = (a < b)"
| "lt NaN y = False"
| "lt x NaN = False"
| "lt x NInf = False"
| "lt PInf y = False"
| "lt x y = True"

fun le :: "number \<Rightarrow> number \<Rightarrow> bool" where
  "le (Fin a) (Fin b) = (a \<le> b)"
| "le NaN y = False"
| "le x NaN = False"
| "le NInf y = True"
| "le x PInf = True"
| "le x y = False"

definition gt :: "number \<Rightarrow> number \<Rightarrow> bool" where
  "gt x y = lt y x"

subsection \<open>JSON payloads\<close>

text \<open>
  The values that travel through the proxy and the cards: what \<open>JSON.parse\<close> produces,
  and \<open>undefined\<close> for a property that is not there. An object is the list of its
  members in order, with distinct keys; a property read finds the member with that key.
\<close>

datatype json =
    JUndefined
  | JNull
  | JBool bool
  | JNum number
  | JStr string
  | JArr "json list"
  | JObj "(string \<times> json) list"

text \<open>Truthiness, as \<open>!x\<close>, \<open>x && y\<close> and \<open>x || y\<close> test it.\<close>

fun truthy :: "json \<Rightarrow> bool" where
  "truthy JUndefined = False"
| "truthy JNull = False"
| "truthy (JBool b) = b"
| "truthy (JNum x) = (x \<noteq> Fin 0 \<and> x \<noteq> NaN)"
| "truthy (JStr s) = (s \<noteq> [])"
| "truthy (JArr xs) = True"
| "truthy (JObj kvs) = True"

text \<open>\<open>x || []\<close>\<close>

definition or_empty :: "json \<Rightarrow> json" where
  "or_empty x = (if truthy x then x else JArr [])"

text \<open>
  \<open>x.length\<close> for a value that is neither \<open>null\<close> nor \<open>undefined\<close>. The length of a
  string is only ever compared with zero, so the unit it is counted in does not matter.
\<close>

fun js_length :: "json \<Rightarrow> json" where
  "js_length (JArr xs) = JNum (Fin (of_nat (length xs)))"
| "js_length (JStr s) = JNum (Fin (of_nat (length s)))"
| "js_length (JObj kvs) = (case map_of kvs ''length'' of Some v \<Rightarrow> v | None \<Rightarrow> JUndefined)"
| "js_length v = JUndefined"

text \<open>
  The first UTF-16 code unit of a non-empty string, as a string. A string is held as its
  UTF-8 bytes: a character of one, two or three bytes is one code unit; a character of
  four bytes is a surrogate pair, whose high surrogate is held in the three-byte form.
\<close>

definition first_unit :: "string \<Rightarrow> string" where
  "first_unit s =
     (let b = map of_char s :: nat list
      in if b ! 0 < 0x80 then take 1 s
         else if b ! 0 < 0xE0 then take 2 s
         else if b ! 0 < 0xF0 then take 3 s
         else
           let cp = (b ! 0 mod 8) * 262144 + (b ! 1 mod 64) * 4096 + (b ! 2 mod 64) * 64 + b ! 3 mod 64;
               hs = 0xD800 + (cp - 0x10000) div 1024
           in map char_of [0xE0 + hs div 4096, 0x80 + hs div 64 mod 64, 0x80 + hs mod 64])"

text \<open>\<open>x[0]\<close> for a value that is neither \<open>null\<close> nor \<open>undefined\<close>.\<close>

fun js_first :: "json \<Rightarrow> json" where
  "js_first (JArr []) = JUndefined"
| "js_first (JArr (x # xs)) = x"
| "js_first (JStr []) = JUndefined"
| "js_first (JStr (c # s)) = JStr (first_unit (c # s))"
| "js_first (JObj kvs) = (case map_of kvs ''0'' of Some v \<Rightarrow> v | None \<Rightarrow> JUndefined)"
| "js_first v = JUndefined"

text \<open>
  \<open>x.k\<close> for a named property \<open>k\<close> that no array, string, number or boolean has:
  a TypeError (\<open>None\<close>) on \<open>null\<close> and \<open>undefined\<close>, the member of an object,
  \<open>undefined\<close> otherwise.
\<close>

fun js_prop :: "string \<Rightarrow> json \<Rightarrow> json option" where
  "js_prop k JUndefined = None"
| "js_prop k JNull = None"
| "js_prop k (JObj kvs) = Some (case map_of kvs k of Some v \<Rightarrow> v | None \<Rightarrow> JUndefined)"
| "js_prop k v = Some JUndefined"

text \<open>
  \<open>x > 0\<close>: the operand is converted by ToNumber first. The conversion of strings, arrays
  and objects parses number syntax; it is the parameter \<open>parse\<close>.
\<close>

fun to_number :: "(json \<Rightarrow> number) \<Rightarrow> json \<Rightarrow> number" where
  "to_number parse JUndefined = NaN"
| "to_number parse JNull = Fin 0"
| "to_number parse (JBool b) = Fin (if b then 1 else 0)"
| "to_number parse (JNum x) = x"
| "to_number parse v = parse v"

text \<open>
  A template literal converts an interpolated value by ToString. Printing numbers, arrays
  and objects is the parameter \<open>print\<close>.
\<close>

fun to_string :: "(json \<Rightarrow> string) \<Rightarrow> json \<Rightarrow> string" where
  "to_string print JUndefined = ''undefined''"
| "to_string print JNull = ''null''"
| "to_string print (JBool b) = (if b then ''true'' else ''false'')"
| "to_string print (JStr s) = s"
| "to_string print v = print v"

text \<open>
  \<open>encodeURIComponent\<close> on a well-formed string, held as its UTF-8 bytes: letters, digits
  and \<open>- _ . ! ~ * ' ( )\<close> stay, every other byte becomes \<open>%XX\<close>.
\<close>

definition unreserved :: "char \<Rightarrow> bool" where
  "unreserved c =
     (c \<in> set ''ABCDEFGHIJKLMNOPQRSTUVWXYZabcdefghijklmnopqrstuvwxyz0123456789-_.!~*()''
      \<or> c = CHR 0x27)"

definition hex_digit :: "nat \<Rightarrow> char" where
  "hex_digit n = ''0123456789ABCDEF'' ! (n mod 16)"

definition encodeURIComponent :: "string \<Rightarrow> string" where
  "encodeURIComponent s =
     concat (map (\<lambda>c. if unreserved c then [c]
                       else [CHR ''%'', hex_digit (of_char c div 16), hex_digit (of_char c)]) s)"

section \<open>The proxy service (backend/index.js)\<close>

text \<open>
  An outbound \<open>axios.get(url, config)\<close> is the record of what the handler passes.
  The promise it returns either rejects with an error whose \<open>message\<close> is a string
  (timeout, network error, any status outside 2xx), or fulfils with the parsed body
  \<open>response.data\<close>. The upstream is a function from the request to that outcome.
\<close>

record request =
  url :: string
  timeout :: nat
  headers :: "(string \<times> string) list"

datatype settled = Rejected string | Fulfilled json

type_synonym upstream = "request \<Rightarrow> settled"

text \<open>An upstream that settles every request the same way, and conversions that are
  never reached (for inputs where no string, array or object is converted).\<close>

definition always :: "settled \<Rightarrow> upstream" where
  "always s r = s"

definition unparsed :: "json \<Rightarrow> number" where
  "unparsed v = NaN"

definition unprinted :: "json \<Rightarrow> string" where
  "unprinted v = []"

text \<open>What the handler sends: \<open>res.status(n).json(b)\<close>; \<open>res.json(b)\<close> keeps status 200.\<close>

record response =
  status :: nat
  body :: json

definition res_json :: "json \<Rightarrow> response" where
  "res_json b = \<lparr>status = 200, body = b\<rparr>"

definition res_status_json :: "nat \<Rightarrow> json \<Rightarrow> response" where
  "res_status_json n b = \<lparr>status = n, body = b\<rparr>"

text \<open>The error envelope of a \<open>catch\<close> block.\<close>

definition envelope :: "string \<Rightarrow> string \<Rightarrow> json" where
  "envelope msg err = JObj [(''message'', JStr msg), (''error'', JStr err)]"

definition github_headers :: "(string \<times> string) list" where
  "github_headers = [(''Accept'', ''application/json''), (''User-Agent'', ''IntelliSignal-Dashboard'')]"

definition gitlab_headers :: "(string \<times> string) list" where
  "gitlab_headers = [(''Accept'', ''application/json'')]"

text \<open>
  Every handler returns the requests it issued, in order, and the response it sent.
\<close>

text \<open>\<open>GET /api/github/user/:username\<close>\<close>

definition github_user :: "upstream \<Rightarrow> string \<Rightarrow> request list \<times> response" where
  "github_user axios_get username =
     (let req = \<lparr>url = ''https://api.github.com/users/'' @ encodeURIComponent username,
                 timeout = 10000, headers = github_headers\<rparr>
      in case axios_get req of
           Fulfilled d \<Rightarrow> ([req], res_json d)
         | Rejected m \<Rightarrow>
             ([req], res_status_json 500 (envelope ''Error fetching GitHub user data'' m)))"

text \<open>\<open>GET /api/github/user/:username/repos\<close>\<close>

definition github_repos :: "upstream \<Rightarrow> string \<Rightarrow> request list \<times> response" where
  "github_repos axios_get username =
     (let req = \<lparr>url = ''https://api.github.com/users/'' @ encodeURIComponent username
                        @ ''/repos?sort=updated&per_page=10'',
                 timeout = 10000, headers = github_headers\<rparr>
      in case axios_get req of
           Fulfilled d \<Rightarrow> ([req], res_json (or_empty d))
         | Rejected m \<Rightarrow>
             ([req], res_status_json 500 (envelope ''Error fetching GitHub repositories'' m)))"

text \<open>\<open>GET /api/github/repos/:owner/:repo/commits\<close>\<close>

definition github_commits :: "upstream \<Rightarrow> string \<Rightarrow> string \<Rightarrow> request list \<times> response" where
  "github_commits axios_get owner repo =
     (let req = \<lparr>url = ''https://api.github.com/repos/'' @ owner @ ''/'' @ repo
                        @ ''/commits?per_page=5'',
                 timeout = 10000, headers = github_headers\<rparr>
      in case axios_get req of
           Fulfilled d \<Rightarrow> ([req], res_json (or_empty d))
         | Rejected m \<Rightarrow>
             ([req], res_status_json 500 (envelope ''Error fetching GitHub commits'' m)))"

text \<open>\<open>GET /api/gitlab/user/:username\<close>\<close>

definition not_found_message :: "string \<Rightarrow> string" where
  "not_found_message username = ''GitLab user \"'' @ username @ ''\" not found''"

definition gitlab_user ::
  "(json \<Rightarrow> number) \<Rightarrow> upstream \<Rightarrow> string \<Rightarrow> request list \<times> response" where
  "gitlab_user parse axios_get username =
     (let req = \<lparr>url = ''https://gitlab.com/api/v4/users?username='' @ encodeURIComponent username,
                 timeout = 10000, headers = gitlab_headers\<rparr>
      in case axios_get req of
           Fulfilled d \<Rightarrow>
             if truthy d \<and> gt (to_number parse (js_length d)) (Fin 0)
             then ([req], res_json (js_first d))
             else ([req], res_status_json 404
                     (envelope (not_found_message username) ''User not found''))
         | Rejected m \<Rightarrow>
             ([req], res_status_json 500 (envelope ''Error fetching GitLab user data'' m)))"

text \<open>\<open>GET /api/gitlab/projects/:userid\<close>\<close>

definition gitlab_projects :: "upstream \<Rightarrow> string \<Rightarrow> request list \<times> response" where
  "gitlab_projects axios_get userid =
     (let req = \<lparr>url = ''https://gitlab.com/api/v4/users/'' @ userid
                        @ ''/projects?order_by=updated_at&per_page=10'',
                 timeout = 10000, headers = gitlab_headers\<rparr>
      in case axios_get req of
           Fulfilled d \<Rightarrow> ([req], res_json (or_empty d))
         | Rejected m \<Rightarrow>
             ([req], res_status_json 500 (envelope ''Error fetching GitLab projects'' m)))"

text \<open>\<open>GET /api/gitlab/projects/:projectId/commits\<close>\<close>

definition gitlab_commits :: "upstream \<Rightarrow> string \<Rightarrow> request list \<times> response" where
  "gitlab_commits axios_get projectId =
     (let req = \<lparr>url = ''https://gitlab.com/api/v4/projects/'' @ projectId
                        @ ''/repository/commits?per_page=5'',
                 timeout = 10000, headers = gitlab_headers\<rparr>
      in case axios_get req of
           Fulfilled d \<Rightarrow> ([req], res_json (or_empty d))
         | Rejected m \<Rightarrow>
             ([req], res_status_json 500 (envelope ''Error fetching GitLab commits'' m)))"

text \<open>
  \<open>GET /api/gitlab/search/:username\<close>: the user lookup, then the projects of the first
  match. Reading \<open>user.id\<close> of a missing first element throws a TypeError inside the
  \<open>try\<close>, which the \<open>catch\<close> turns into the 500 envelope with the engine's message.
\<close>

definition search_failure :: "string \<Rightarrow> json" where
  "search_failure err =
     JObj [(''message'', JStr ''Error searching GitLab user''),
           (''error'', JStr err),
           (''suggestion'', JStr ''The GitLab API might be temporarily unavailable'')]"

definition search_not_found :: "string \<Rightarrow> json" where
  "search_not_found username =
     JObj [(''message'', JStr (not_found_message username)),
           (''suggestion'', JStr ''Check the username or try a different GitLab username'')]"

definition type_error_message :: "json \<Rightarrow> string" where
  "type_error_message v =
     ''Cannot read properties of '' @ (if v = JNull then ''null'' else ''undefined'')
       @ '' (reading 'id')''"

definition user_lookup :: "string \<Rightarrow> request" where
  "user_lookup username =
     \<lparr>url = ''https://gitlab.com/api/v4/users?username='' @ encodeURIComponent username,
      timeout = 10000, headers = []\<rparr>"

definition projects_of :: "string \<Rightarrow> request" where
  "projects_of uid =
     \<lparr>url = ''https://gitlab.com/api/v4/users/'' @ uid @ ''/projects?order_by=updated_at&per_page=5'',
      timeout = 10000, headers = []\<rparr>"

definition gitlab_search ::
  "(json \<Rightarrow> string) \<Rightarrow> upstream \<Rightarrow> string \<Rightarrow> request list \<times> response" where
  "gitlab_search print axios_get username =
     (let userReq = user_lookup username
      in case axios_get userReq of
           Rejected m \<Rightarrow> ([userReq], res_status_json 500 (search_failure m))
         | Fulfilled d \<Rightarrow>
             if \<not> truthy d \<or> js_length d = JNum (Fin 0)
             then ([userReq], res_status_json 404 (search_not_found username))
             else
               let user = js_first d in
               (case js_prop ''id'' user of
                  None \<Rightarrow> ([userReq], res_status_json 500 (search_failure (type_error_message user)))
                | Some uid \<Rightarrow>
                    let projReq = projects_of (to_string print uid)
                    in (case axios_get projReq of
                          Rejected m \<Rightarrow>
                            ([userReq, projReq], res_status_json 500 (search_failure m))
                        | Fulfilled p \<Rightarrow>
                            ([userReq, projReq],
                             res_json (JObj [(''user'', user),
                                             (''projects'', or_empty p),
                                             (''success'', JBool True)])))))"

text \<open>
  The routes \<open>app.get\<close> registers, with their path parameters, and the dispatch to
  their handlers.
\<close>

datatype route =
    GithubUser string
  | GithubRepos string
  | GithubCommits string string
  | GitlabUser string
  | GitlabProjects string
  | GitlabCommits string
  | GitlabSearch string

fun handle ::
  "(json \<Rightarrow> number) \<Rightarrow> (json \<Rightarrow> string) \<Rightarrow> upstream \<Rightarrow> route \<Rightarrow> request list \<times> response" where
  "handle parse print axios_get (GithubUser username) = github_user axios_get username"
| "handle parse print axios_get (GithubRepos username) = github_repos axios_get username"
| "handle parse print axios_get (GithubCommits owner repo) = github_commits axios_get owner repo"
| "handle parse print axios_get (GitlabUser username) = gitlab_user parse axios_get username"
| "handle parse print axios_get (GitlabProjects userid) = gitlab_projects axios_get userid"
| "handle parse print axios_get (GitlabCommits projectId) = gitlab_commits axios_get projectId"
| "handle parse print axios_get (GitlabSearch username) = gitlab_search print axios_get username"

text \<open>The request every route starts with.\<close>

fun first_request :: "route \<Rightarrow> request" where
  "first_request (GithubUser username) =
     \<lparr>url = ''https://api.github.com/users/'' @ encodeURIComponent username,
      timeout = 10000, headers = github_headers\<rparr>"
| "first_request (GithubRepos username) =
     \<lparr>url = ''https://api.github.com/users/'' @ encodeURIComponent username
             @ ''/repos?sort=updated&per_page=10'',
      timeout = 10000, headers = github_headers\<rparr>"
| "first_request (GithubCommits owner repo) =
     \<lparr>url = ''https://api.github.com/repos/'' @ owner @ ''/'' @ repo @ ''/commits?per_page=5'',
      timeout = 10000, headers = github_headers\<rparr>"
| "first_request (GitlabUser username) =
     \<lparr>url = ''https://gitlab.com/api/v4/users?username='' @ encodeURIComponent username,
      timeout = 10000, headers = gitlab_headers\<rparr>"
| "first_request (GitlabProjects userid) =
     \<lparr>url = ''https://gitlab.com/api/v4/users/'' @ userid
             @ ''/projects?order_by=updated_at&per_page=10'',
      timeout = 10000, headers = gitlab_headers\<rparr>"
| "first_request (GitlabCommits projectId) =
     \<lparr>url = ''https://gitlab.com/api/v4/projects/'' @ projectId
             @ ''/repository/commits?per_page=5'',
      timeout = 10000, headers = gitlab_headers\<rparr>"
| "first_request (GitlabSearch username) = user_lookup username"

text \<open>An upstream that fulfils one request and rejects every other.\<close>

definition only :: "request \<Rightarrow> json \<Rightarrow> string \<Rightarrow> upstream" where
  "only req d m r = (if r = req then Fulfilled d else Rejected m)"

text \<open>The upstream has rejected the request.\<close>

fun rejected :: "settled \<Rightarrow> bool" where
  "rejected (Rejected m) = True"
| "rejected (Fulfilled d) = False"

text \<open>The members of a JSON object, by key; \<open>None\<close> for any other value.\<close>

fun field :: "string \<Rightarrow> json \<Rightarrow> json option" where
  "field k (JObj kvs) = map_of kvs k"
| "field k v = None"

fun keys :: "json \<Rightarrow> string list" where
  "keys (JObj kvs) = map fst kvs"
| "keys v = []"

fun is_string :: "json option \<Rightarrow> bool" where
  "is_string (Some (JStr s)) = True"
| "is_string v = False"

definition user_agent :: "request \<Rightarrow> string option" where
  "user_agent r = map_of (headers r) ''User-Agent''"

text \<open>The routes that relay the upstream body as it is, and the routes to GitHub.\<close>

fun passthrough :: "route \<Rightarrow> bool" where
  "passthrough (GitlabUser u) = False"
| "passthrough (GitlabSearch u) = False"
| "passthrough r = True"

fun github_route :: "route \<Rightarrow> bool" where
  "github_route (GithubUser u) = True"
| "github_route (GithubRepos u) = True"
| "github_route (GithubCommits ow rp) = True"
| "github_route r = False"

section \<open>The developer-profile cards\<close>

text \<open>
  The state both cards keep with \<open>useState\<close>; \<open>error\<close> is \<open>null\<close> (\<open>None\<close>) or
  the string of the banner. A card calls \<open>axios.get(url)\<close> with no configuration.
\<close>

record card =
  userData :: json
  loading :: bool
  error :: "string option"
  searchInput :: string

definition plain_get :: "string \<Rightarrow> request" where
  "plain_get u = \<lparr>url = u, timeout = 0, headers = []\<rparr>"

subsection \<open>GitLabCard\<close>

record gitlab_card = card +
  projects :: json
  projectCommits :: json
  expandedProject :: json

definition gitlab_card_initial :: "string \<Rightarrow> gitlab_card" where
  "gitlab_card_initial username =
     \<lparr>userData = JNull, loading = True, error = None, searchInput = username,
      projects = JArr [], projectCommits = JObj [], expandedProject = JNull\<rparr>"

definition gitlab_warning :: string where
  "gitlab_warning = ''GitLab data temporarily unavailable - using demo data''"

definition gitlab_demo_user :: "string \<Rightarrow> json" where
  "gitlab_demo_user gitlabUsername =
     JObj [(''username'', JStr gitlabUsername),
           (''name'', JStr ''Lukhanyo N''),
           (''avatar_url'', JStr ''https://gitlab.com/uploads/-/system/user/avatar/placeholder.png''),
           (''id'', JNum (Fin 123456))]"

definition gitlab_demo_projects :: json where
  "gitlab_demo_projects =
     JArr [JObj [(''id'', JNum (Fin 1)),
                 (''name'', JStr ''intellisignal-dashboard''),
                 (''description'', JStr ''Full-stack analytics dashboard''),
                 (''star_count'', JNum (Fin 8)),
                 (''forks_count'', JNum (Fin 2)),
                 (''web_url'', JStr ''https://gitlab.com/lukhanyoN/intellisignal-dashboard''),
                 (''last_activity_at'', JStr ''2024-01-15T10:30:00Z'')],
           JObj [(''id'', JNum (Fin 2)),
                 (''name'', JStr ''devops-pipeline''),
                 (''description'', JStr ''CI/CD automation setup''),
                 (''star_count'', JNum (Fin 5)),
                 (''forks_count'', JNum (Fin 1)),
                 (''web_url'', JStr ''https://gitlab.com/lukhanyoN/devops-pipeline''),
                 (''last_activity_at'', JStr ''2024-01-10T14:20:00Z'')]]"

definition gitlab_search_url :: "string \<Rightarrow> string" where
  "gitlab_search_url gitlabUsername =
     ''https://intellisignal-dashboard-b5c144f215dd.herokuapp.com/api/gitlab/search/'' @ gitlabUsername"

text \<open>
  \<open>fetchGitLabData\<close>: the state after the \<open>try\<close>, \<open>catch\<close> and \<open>finally\<close> blocks have
  run. Reading \<open>response.data.user\<close> of a \<open>null\<close> body throws inside the \<open>try\<close>, before
  any setter of the success path has run, and lands in the \<open>catch\<close> like a rejection.
\<close>

definition gitlab_catch :: "string \<Rightarrow> gitlab_card \<Rightarrow> gitlab_card" where
  "gitlab_catch gitlabUsername st =
     st\<lparr>error := Some gitlab_warning,
        userData := gitlab_demo_user gitlabUsername,
        projects := gitlab_demo_projects\<rparr>"

definition fetchGitLabData :: "upstream \<Rightarrow> string \<Rightarrow> gitlab_card \<Rightarrow> gitlab_card" where
  "fetchGitLabData axios_get gitlabUsername st =
     (let st1 = st\<lparr>loading := True, error := None\<rparr>;
          st2 = (case axios_get (plain_get (gitlab_search_url gitlabUsername)) of
                   Rejected m \<Rightarrow> gitlab_catch gitlabUsername st1
                 | Fulfilled d \<Rightarrow>
                     (case (js_prop ''user'' d, js_prop ''projects'' d) of
                        (Some u, Some p) \<Rightarrow>
                          st1\<lparr>userData := u, projects := p,
                              projectCommits := JObj [], expandedProject := JNull\<rparr>
                      | _ \<Rightarrow> gitlab_catch gitlabUsername st1))
      in st2\<lparr>loading := False\<rparr>)"

subsection \<open>GitHubCard\<close>

record github_card = card +
  repos :: json
  repoCommits :: json
  expandedRepo :: json

definition github_card_initial :: "string \<Rightarrow> github_card" where
  "github_card_initial username =
     \<lparr>userData = JNull, loading = True, error = None, searchInput = username,
      repos = JArr [], repoCommits = JObj [], expandedRepo = JNull\<rparr>"

definition github_failure :: string where
  "github_failure = ''Failed to fetch GitHub data. Please check the username and try again.''"

definition github_user_url :: "string \<Rightarrow> string" where
  "github_user_url githubUsername = ''https://api.github.com/users/'' @ githubUsername"

definition github_repos_url :: "string \<Rightarrow> string" where
  "github_repos_url githubUsername =
     ''https://api.github.com/users/'' @ githubUsername @ ''/repos?sort=updated&per_page=5''"

text \<open>
  \<open>fetchGitHubData\<close>: both requests are started, and \<open>Promise.all\<close> rejects as soon as
  one of them does. The \<open>catch\<close> sets the error string and nothing else.
\<close>

definition fetchGitHubData :: "upstream \<Rightarrow> string \<Rightarrow> github_card \<Rightarrow> github_card" where
  "fetchGitHubData axios_get githubUsername st =
     (let st1 = st\<lparr>loading := True, error := None\<rparr>;
          st2 = (case (axios_get (plain_get (github_user_url githubUsername)),
                       axios_get (plain_get (github_repos_url githubUsername))) of
                   (Fulfilled userResponse, Fulfilled reposResponse) \<Rightarrow>
                     st1\<lparr>userData := userResponse, repos := reposResponse,
                         repoCommits := JObj [], expandedRepo := JNull\<rparr>
                 | _ \<Rightarrow> st1\<lparr>error := Some github_failure\<rparr>)
      in st2\<lparr>loading := False\<rparr>)"

text \<open>A card's fetch has failed when a request it made was rejected.\<close>

definition gitlab_fetch_failed :: "upstream \<Rightarrow> string \<Rightarrow> bool" where
  "gitlab_fetch_failed axios_get gitlabUsername =
     rejected (axios_get (plain_get (gitlab_search_url gitlabUsername)))"

definition github_fetch_failed :: "upstream \<Rightarrow> string \<Rightarrow> bool" where
  "github_fetch_failed axios_get githubUsername =
     (rejected (axios_get (plain_get (github_user_url githubUsername)))
      \<or> rejected (axios_get (plain_get (github_repos_url githubUsername))))"

section \<open>The price predictor of StockChart\<close>

text \<open>
  A chart point; \<open>predicted\<close> and \<open>confidence\<close> are absent (\<open>None\<close>) on historical
  points. \<open>predictNextDay\<close> takes the value that its one call of \<open>Math.random()\<close>
  returns. \<open>data[0]\<close> of an empty array is \<open>undefined\<close>: \<open>None\<close>.
\<close>

record point =
  name :: string
  price :: number
  date :: string
  volume :: number
  predicted :: "bool option"
  confidence :: "string option"

definition random_factor :: "number \<Rightarrow> number" where
  "random_factor random = fadd (lit (8 / 10)) (fmul random (lit (4 / 10)))"

definition predictNextDay :: "number \<Rightarrow> point list \<Rightarrow> point option" where
  "predictNextDay random data =
     (if length data < 2 then (case data of [] \<Rightarrow> None | p # ps \<Rightarrow> Some p)
      else
        let lastPoint = data ! (length data - 1);
            previousPoint = data ! (length data - 2);
            recentTrend = fsub (price lastPoint) (price previousPoint);
            predictedChange = fmul recentTrend (random_factor random)
        in Some (lastPoint\<lparr>name := ''Predict'',
                   price := fadd (price lastPoint) predictedChange,
                   predicted := Some True,
                   confidence := Some (if gt (fabs recentTrend) (Fin 1) then ''High'' else ''Medium'')\<rparr>))"

section \<open>The dashboard\<close>

subsection \<open>Market mood\<close>

record quote =
  symbol :: string
  name :: string
  price :: number
  change :: number
  changesPercentage :: number

text \<open>
  The seven labels, in the order of the source: the default of an empty list, then the
  ladder from \<open>> 2\<close> down to the last \<open>return\<close>. (The source writes them as emoji:
  sleeping face, rocket, sunglasses, slight smile, neutral face, worried face, fire.)
\<close>

datatype mood = Sleeping | Rocket | Sunglasses | Smile | Neutral | Worried | Fire

text \<open>The average of the reduction. An array has fewer than \<open>2\<^sup>3\<^sup>2\<close> elements, so its
  length is a double.\<close>

definition average :: "quote list \<Rightarrow> number" where
  "average stocksData =
     fdiv (foldl (\<lambda>sum stock. fadd sum (changesPercentage stock)) (Fin 0) stocksData)
          (Fin (of_nat (length stocksData)))"

definition ladder :: "number \<Rightarrow> mood" where
  "ladder avgPerformance =
     (if gt avgPerformance (Fin 2) then Rocket
      else if gt avgPerformance (Fin 1) then Sunglasses
      else if gt avgPerformance (Fin 0) then Smile
      else if gt avgPerformance (Fin (- 1)) then Neutral
      else if gt avgPerformance (Fin (- 2)) then Worried
      else Fire)"

definition calculateMarketMood :: "quote list option \<Rightarrow> mood" where
  "calculateMarketMood stocksData =
     (case stocksData of
        None \<Rightarrow> Sleeping
      | Some qs \<Rightarrow> if length qs = 0 then Sleeping else ladder (average qs))"

text \<open>The demo quotes of the dashboard.\<close>

definition mockData :: "quote list" where
  "mockData =
     [\<lparr>symbol = ''AAPL'', name = ''Apple Inc.'', price = lit (22776 / 100),
       change = lit (286 / 100), changesPercentage = lit (127 / 100)\<rparr>,
      \<lparr>symbol = ''MSFT'', name = ''Microsoft Corp.'', price = lit (41586 / 100),
       change = lit (532 / 100), changesPercentage = lit (130 / 100)\<rparr>,
      \<lparr>symbol = ''GOOGL'', name = ''Alphabet Inc.'', price = lit (17524 / 100),
       change = lit (- 115 / 100), changesPercentage = lit (- 65 / 100)\<rparr>,
      \<lparr>symbol = ''AMZN'', name = ''Amazon.com Inc.'', price = lit (17822 / 100),
       change = lit (345 / 100), changesPercentage = lit (197 / 100)\<rparr>,
      \<lparr>symbol = ''META'', name = ''Meta Platforms'', price = lit (49264 / 100),
       change = lit (872 / 100), changesPercentage = lit (180 / 100)\<rparr>]"

text \<open>A quote with the given percent change, written as a decimal literal; the other
  fields do not enter the mood.\<close>

definition pct :: "rat \<Rightarrow> quote" where
  "pct q = \<lparr>symbol = [], name = [], price = Fin 0, change = Fin 0, changesPercentage = lit q\<rparr>"

text \<open>A quote whose percent change is the double \<open>-2\<^sup>1\<^sup>0\<^sup>2\<^sup>3\<close>; two of them sum to
  \<open>-Infinity\<close>.\<close>

definition plunge :: quote where
  "plunge = \<lparr>symbol = [], name = [], price = Fin 0, change = Fin 0,
             changesPercentage = Fin (- (2 powi 1023))\<rparr>"

text \<open>
  The reduction adds the percent changes from the left, rounding after every addition.
  Its running sums are exact when every value is finite and every partial sum, taken in
  the rationals, is itself a double, so that no addition rounds.
\<close>

fun fin_value :: "number \<Rightarrow> rat" where
  "fin_value (Fin x) = x"
| "fin_value x = 0"

fun exact_from :: "rat \<Rightarrow> number list \<Rightarrow> bool" where
  "exact_from s [] = True"
| "exact_from s (Fin x # xs) = (is_double (s + x) \<and> exact_from (s + x) xs)"
| "exact_from s (x # xs) = False"

definition exact_sums :: "quote list \<Rightarrow> bool" where
  "exact_sums qs = exact_from 0 (map changesPercentage qs)"

text \<open>
  The arithmetic mean of the percent changes taken in the rationals, and the sum of
  their absolute values. \<open>magnitude_below K qs\<close>: every percent change is finite, and
  \<open>2\<^sup>K\<close>, a power of two in the normal range of the doubles, exceeds that sum with room
  for one rounding error per element. \<open>clear_of_thresholds K qs\<close>: the mean is farther
  than \<open>2\<^sup>K\<^sup>-\<^sup>5\<^sup>3\<close> from each of the five thresholds of the ladder.
\<close>

fun is_fin :: "number \<Rightarrow> bool" where
  "is_fin (Fin x) = True"
| "is_fin x = False"

definition exact_mean :: "quote list \<Rightarrow> rat" where
  "exact_mean qs = sum_list (map (\<lambda>q. fin_value (changesPercentage q)) qs) / of_nat (length qs)"

definition abs_total :: "quote list \<Rightarrow> rat" where
  "abs_total qs = sum_list (map (\<lambda>q. \<bar>fin_value (changesPercentage q)\<bar>) qs)"

definition magnitude_below :: "int \<Rightarrow> quote list \<Rightarrow> bool" where
  "magnitude_below K qs =
     (list_all (\<lambda>q. is_fin (changesPercentage q)) qs \<and> - 1021 \<le> K \<and> K \<le> 1023
      \<and> abs_total qs + of_nat (length qs) * 2 powi (K - 54) < 2 powi K)"


subsection \<open>The refresh timer\<close>

text \<open>
  The host's interval timers, in a discrete clock of milliseconds. \<open>setInterval\<close>
  registers a callback under a fresh identifier, first due one period from now;
  \<open>clearInterval\<close> removes the registration with that identifier. When time passes, a
  registered interval runs at its due time and at every period after it. The log records
  every run of a callback: when, by which interval (\<open>None\<close> for a direct call), and which.
  The callbacks of this program register and clear nothing, so a run changes no
  registration. A period of zero counts as one millisecond.
\<close>

datatype callback = FetchDashboardData | Foreign string

record interval =
  ident :: nat
  period :: nat
  due :: nat
  callback :: callback

record host =
  now :: nat
  next_id :: nat
  intervals :: "interval list"
  log :: "(nat \<times> nat option \<times> callback) list"

definition call :: "callback \<Rightarrow> host \<Rightarrow> host" where
  "call cb h = h\<lparr>log := log h @ [(now h, None, cb)]\<rparr>"

definition setInterval :: "callback \<Rightarrow> nat \<Rightarrow> host \<Rightarrow> nat \<times> host" where
  "setInterval cb ms h =
     (next_id h,
      h\<lparr>next_id := Suc (next_id h),
        intervals := intervals h @
          [\<lparr>ident = next_id h, period = max 1 ms, due = now h + max 1 ms, callback = cb\<rparr>]\<rparr>)"

definition clearInterval :: "nat \<Rightarrow> host \<Rightarrow> host" where
  "clearInterval i h = h\<lparr>intervals := filter (\<lambda>t. ident t \<noteq> i) (intervals h)\<rparr>"

text \<open>How often an interval runs up to time \<open>T\<close>, and its runs.\<close>

definition runs :: "nat \<Rightarrow> interval \<Rightarrow> nat" where
  "runs T t = (if T < due t then 0 else (T - due t) div period t + 1)"

definition firings :: "nat \<Rightarrow> interval \<Rightarrow> (nat \<times> nat option \<times> callback) list" where
  "firings T t = map (\<lambda>k. (due t + k * period t, Some (ident t), callback t)) [0 ..< runs T t]"

definition elapse :: "nat \<Rightarrow> host \<Rightarrow> host" where
  "elapse dt h =
     (let T = now h + dt
      in h\<lparr>now := T,
           intervals := map (\<lambda>t. t\<lparr>due := due t + runs T t * period t\<rparr>) (intervals h),
           log := log h @ concat (map (firings T) (intervals h))\<rparr>)"

text \<open>
  The effect of the dashboard, run once when the view is mounted: it calls
  \<open>fetchDashboardData\<close>, registers it every 60000 ms, and returns the cleanup, which
  clears the interval it has registered. The cleanup runs when the view is torn down.
\<close>

definition mount :: "host \<Rightarrow> nat \<times> host" where
  "mount h = setInterval FetchDashboardData 60000 (call FetchDashboardData h)"

definition cleanup :: "nat \<Rightarrow> host \<Rightarrow> host" where
  "cleanup intervalId h = clearInterval intervalId h"

definition elapses :: "nat list \<Rightarrow> host \<Rightarrow> host" where
  "elapses dts h = foldl (\<lambda>h dt. elapse dt h) h dts"

text \<open>The runs that interval \<open>i\<close> has made, and a host that has not handed out
  \<open>next_id\<close> or anything above it yet.\<close>

definition runs_of :: "nat \<Rightarrow> host \<Rightarrow> (nat \<times> callback) list" where
  "runs_of i h = map (\<lambda>(t, src, cb). (t, cb)) (filter (\<lambda>(t, src, cb). src = Some i) (log h))"

definition fresh_ids :: "host \<Rightarrow> bool" where
  "fresh_ids h =
     (list_all (\<lambda>t. ident t < next_id h) (intervals h)
      \<and> list_all (\<lambda>(t, src, cb). case src of None \<Rightarrow> True | Some j \<Rightarrow> j < next_id h) (log h))"

definition host_initial :: host where
  "host_initial = \<lparr>now = 0, next_id = 1, intervals = [], log = []\<rparr>"

section \<open>Facts about rounding\<close>

text \<open>
  The binary exponent is the one the bounds determine, rounding moves a magnitude by at
  most half the spacing and is monotone, and the overflow test can be read off the
  exponent (which is what evaluation uses).
\<close>

lemma pow2_pos: "0 < (2::rat) powi k"
  by simp

lemma pow2_le: "k \<le> l \<Longrightarrow> (2::rat) powi k \<le> 2 powi l"
  by (rule power_int_increasing) simp_all

lemma pow2_less: "k < l \<Longrightarrow> (2::rat) powi k < 2 powi l"
  by (rule power_int_strict_increasing) simp_all

lemma pow2_le_iff: "(2::rat) powi k \<le> 2 powi l \<longleftrightarrow> k \<le> l"
  using pow2_le [of k l] pow2_less [of l k] by (auto simp: not_le [symmetric])

lemma pow2_less_iff: "(2::rat) powi k < 2 powi l \<longleftrightarrow> k < l"
  using pow2_le [of l k] pow2_less [of k l] by (auto simp: not_less [symmetric])

lemma pow2_add: "(2::rat) powi (k + l) = 2 powi k * 2 powi l"
  by (simp add: power_int_add)

lemma flog2_rough:
  assumes "0 < x"
  defines "d \<equiv> bitlen (fst (quotient_of x)) - bitlen (snd (quotient_of x))"
  shows "2 powi (d - 1) \<le> x" and "x < 2 powi (d + 1)"
proof -
  obtain p q where pq: "quotient_of x = (p, q)" by force
  have q: "0 < q" using pq by (rule quotient_of_denom_pos)
  have x: "x = of_int p / of_int q" using pq by (rule quotient_of_div)
  have p: "0 < p" using assms(1) q by (simp add: x zero_less_divide_iff)
  have d: "d = bitlen p - bitlen q" by (simp add: d_def pq)
  have bp: "1 \<le> bitlen p" and bq: "1 \<le> bitlen q"
    using p q bitlen_eq_zero_iff [of p] bitlen_eq_zero_iff [of q] bitlen_nonneg [of p] bitlen_nonneg [of q]
    by linarith+
  have p1: "(2::rat) powi (bitlen p - 1) \<le> of_int p"
  proof -
    have "(2::int) ^ nat (bitlen p - 1) \<le> p" using bitlen_bounds [OF p] by simp
    then have "(of_int ((2::int) ^ nat (bitlen p - 1)) :: rat) \<le> of_int p" by (simp only: of_int_le_iff)
    then show ?thesis using bp by (simp add: power_int_def)
  qed
  have p2: "of_int p < (2::rat) powi (bitlen p)"
  proof -
    have "p < (2::int) ^ nat (bitlen p)" using bitlen_bounds [OF p] by simp
    then have "(of_int p :: rat) < of_int ((2::int) ^ nat (bitlen p))" by (simp only: of_int_less_iff)
    then show ?thesis using bp by (simp add: power_int_def)
  qed
  have q1: "(2::rat) powi (bitlen q - 1) \<le> of_int q"
  proof -
    have "(2::int) ^ nat (bitlen q - 1) \<le> q" using bitlen_bounds [OF q] by simp
    then have "(of_int ((2::int) ^ nat (bitlen q - 1)) :: rat) \<le> of_int q" by (simp only: of_int_le_iff)
    then show ?thesis using bq by (simp add: power_int_def)
  qed
  have q2: "of_int q < (2::rat) powi (bitlen q)"
  proof -
    have "q < (2::int) ^ nat (bitlen q)" using bitlen_bounds [OF q] by simp
    then have "(of_int q :: rat) < of_int ((2::int) ^ nat (bitlen q))" by (simp only: of_int_less_iff)
    then show ?thesis using bq by (simp add: power_int_def)
  qed
  have qpos: "(0::rat) < of_int q" using q by simp
  have "2 powi (d - 1) * of_int q \<le> 2 powi (d - 1) * (2::rat) powi (bitlen q)"
    using q2 by (simp add: mult_left_mono less_imp_le)
  also have "\<dots> = 2 powi (bitlen p - 1)"
    by (simp add: d flip: pow2_add)
  also have "\<dots> \<le> of_int p" by (rule p1)
  finally show "2 powi (d - 1) \<le> x"
    using qpos by (simp add: x pos_le_divide_eq)
  have "of_int p < (2::rat) powi (bitlen p)" by (rule p2)
  also have "\<dots> = 2 powi (d + 1) * 2 powi (bitlen q - 1)"
    by (simp add: d flip: pow2_add)
  also have "\<dots> \<le> 2 powi (d + 1) * of_int q"
    using q1 by (simp add: mult_left_mono)
  finally show "x < 2 powi (d + 1)"
    using qpos by (simp add: x pos_divide_less_eq)
qed

lemma flog2_bounds:
  assumes "0 < x"
  shows "2 powi (flog2 x) \<le> x" and "x < 2 powi (flog2 x + 1)"
proof -
  let ?d = "bitlen (fst (quotient_of x)) - bitlen (snd (quotient_of x))"
  have f: "flog2 x = (if 2 powi ?d \<le> x then ?d else ?d - 1)"
    by (simp add: flog2_def Let_def split: prod.split)
  show "2 powi (flog2 x) \<le> x"
    using flog2_rough(1) [OF assms] by (simp add: f)
  show "x < 2 powi (flog2 x + 1)"
    using flog2_rough(2) [OF assms] by (auto simp: f not_le)
qed

lemma flog2_unique:
  assumes "2 powi k \<le> x" and "x < 2 powi (k + 1)"
  shows "flog2 x = k"
proof -
  have x: "0 < x" using assms(1) pow2_pos [of k] by linarith
  have "2 powi k < (2::rat) powi (flog2 x + 1)"
    using assms(1) flog2_bounds(2) [OF x] by linarith
  moreover have "2 powi (flog2 x) < (2::rat) powi (k + 1)"
    using assms(2) flog2_bounds(1) [OF x] by linarith
  ultimately show ?thesis by (simp add: pow2_less_iff)
qed

lemma flog2_mono:
  assumes "0 < x" and "x \<le> y"
  shows "flog2 x \<le> flog2 y"
proof -
  have y: "0 < y" using assms by linarith
  have "2 powi (flog2 x) < (2::rat) powi (flog2 y + 1)"
    using flog2_bounds(1) [OF assms(1)] flog2_bounds(2) [OF y] assms(2) by linarith
  then show ?thesis by (simp add: pow2_less_iff)
qed

lemma round_half_even_ge:
  assumes "of_int n \<le> q"
  shows "n \<le> round_half_even q"
proof -
  have "n \<le> \<lfloor>q\<rfloor>" using assms by (simp add: le_floor_iff)
  then show ?thesis by (auto simp: round_half_even_def Let_def)
qed

lemma round_half_even_le:
  assumes "q \<le> of_int n"
  shows "round_half_even q \<le> n"
proof (cases "q = of_int n")
  case True
  then show ?thesis by (simp add: round_half_even_def Let_def)
next
  case False
  then have "q < of_int n" using assms by simp
  then have "\<lfloor>q\<rfloor> < n" by (simp add: floor_less_iff)
  then show ?thesis by (auto simp: round_half_even_def Let_def)
qed

lemma round_half_even_of_int [simp]: "round_half_even (of_int n) = n"
  by (simp add: round_half_even_def Let_def)

lemma round_half_even_mono:
  assumes "p \<le> q"
  shows "round_half_even p \<le> round_half_even q"
proof (cases "\<lfloor>p\<rfloor> = \<lfloor>q\<rfloor>")
  case True
  then show ?thesis using assms by (auto simp: round_half_even_def Let_def)
next
  case False
  then have "\<lfloor>p\<rfloor> + 1 \<le> \<lfloor>q\<rfloor>" using floor_mono [OF assms] by linarith
  moreover have "round_half_even p \<le> \<lfloor>p\<rfloor> + 1" by (auto simp: round_half_even_def Let_def)
  moreover have "\<lfloor>q\<rfloor> \<le> round_half_even q" by (auto simp: round_half_even_def Let_def)
  ultimately show ?thesis by linarith
qed

lemma ulp_exp_scaled:
  assumes "0 < a"
  shows "a / 2 powi ulp_exp a < 2 ^ 53"
    and "- 1074 < ulp_exp a \<Longrightarrow> 2 ^ 52 \<le> a / 2 powi ulp_exp a"
proof -
  have e: "flog2 a - 52 \<le> ulp_exp a" by (simp add: ulp_exp_def)
  have "a < 2 powi (flog2 a + 1)" by (rule flog2_bounds(2) [OF assms])
  also have "\<dots> \<le> 2 powi (ulp_exp a + 53)" using e by (simp add: pow2_le_iff)
  also have "\<dots> = 2 ^ 53 * 2 powi ulp_exp a" by (simp add: pow2_add)
  finally show "a / 2 powi ulp_exp a < 2 ^ 53" by (simp add: pos_divide_less_eq)
  assume "- 1074 < ulp_exp a"
  then have e': "ulp_exp a = flog2 a - 52" by (simp add: ulp_exp_def max_def split: if_splits)
  have "(2::rat) ^ 52 * 2 powi ulp_exp a = 2 powi (ulp_exp a + 52)" by (simp add: pow2_add)
  also have "\<dots> = 2 powi flog2 a" by (simp add: e')
  also have "\<dots> \<le> a" by (rule flog2_bounds(1) [OF assms])
  finally show "2 ^ 52 \<le> a / 2 powi ulp_exp a" by (simp add: pos_le_divide_eq)
qed

lemma ulp_exp_mono: "0 < a \<Longrightarrow> a \<le> b \<Longrightarrow> ulp_exp a \<le> ulp_exp b"
  using flog2_mono [of a b] by (simp add: ulp_exp_def)

lemma ulp_exp_ge: "- 1074 \<le> ulp_exp a"
  by (simp add: ulp_exp_def)

lemma round_mag_upper:
  assumes "0 < a"
  shows "round_mag a \<le> 2 powi (ulp_exp a + 53)"
proof -
  have "a / 2 powi ulp_exp a \<le> of_int (2 ^ 53)" using ulp_exp_scaled(1) [OF assms] by simp
  then have "round_half_even (a / 2 powi ulp_exp a) \<le> 2 ^ 53" by (rule round_half_even_le)
  then have "(of_int (round_half_even (a / 2 powi ulp_exp a)) :: rat) \<le> of_int (2 ^ 53)"
    by (simp only: of_int_le_iff)
  then have "round_mag a \<le> 2 ^ 53 * 2 powi ulp_exp a"
    by (simp add: round_mag_def mult_right_mono)
  then show ?thesis by (simp add: pow2_add mult.commute)
qed

lemma round_mag_lower:
  assumes "0 < a" and "- 1074 < ulp_exp a"
  shows "2 powi (ulp_exp a + 52) \<le> round_mag a"
proof -
  have "of_int (2 ^ 52) \<le> a / 2 powi ulp_exp a" using ulp_exp_scaled(2) [OF assms] by simp
  then have "2 ^ 52 \<le> round_half_even (a / 2 powi ulp_exp a)" by (rule round_half_even_ge)
  then have "(of_int (2 ^ 52) :: rat) \<le> of_int (round_half_even (a / 2 powi ulp_exp a))"
    by (simp only: of_int_le_iff)
  then have "2 ^ 52 * 2 powi ulp_exp a \<le> round_mag a"
    by (simp add: round_mag_def mult_right_mono)
  then show ?thesis by (simp add: pow2_add mult.commute)
qed

lemma round_mag_zero [simp]: "round_mag 0 = 0"
  using round_half_even_of_int [of 0] by (simp add: round_mag_def)

lemma round_mag_nonneg: "0 \<le> a \<Longrightarrow> 0 \<le> round_mag a"
  using round_half_even_ge [of 0 "a / 2 powi ulp_exp a"]
  by (simp add: round_mag_def)

lemma round_half_even_error: "\<bar>of_int (round_half_even q) - q\<bar> \<le> 1 / 2"
proof -
  have "of_int \<lfloor>q\<rfloor> \<le> q" and "q < of_int \<lfloor>q\<rfloor> + 1" by linarith+
  then show ?thesis by (auto simp: round_half_even_def Let_def abs_le_iff)
qed

lemma round_mag_error: "\<bar>round_mag a - a\<bar> \<le> 2 powi ulp_exp a / 2"
proof -
  let ?u = "(2::rat) powi ulp_exp a"
  have u: "0 < ?u" by (rule pow2_pos)
  have "round_mag a - a = (of_int (round_half_even (a / ?u)) - a / ?u) * ?u"
    using u by (simp add: round_mag_def algebra_simps)
  then have "\<bar>round_mag a - a\<bar> = \<bar>of_int (round_half_even (a / ?u)) - a / ?u\<bar> * ?u"
    using u by (simp add: abs_mult)
  also have "\<dots> \<le> 1 / 2 * ?u"
    using u by (intro mult_right_mono round_half_even_error) simp
  finally show ?thesis by simp
qed

lemma round_mag_mono:
  assumes "0 \<le> a" and "a \<le> b"
  shows "round_mag a \<le> round_mag b"
proof (cases "a = 0")
  case True
  then show ?thesis using assms round_mag_nonneg [of b] by simp
next
  case False
  then have a: "0 < a" and b: "0 < b" using assms by simp_all
  show ?thesis
  proof (cases "ulp_exp a = ulp_exp b")
    case True
    have "a / 2 powi ulp_exp b \<le> b / 2 powi ulp_exp b"
      using assms(2) by (simp add: divide_right_mono)
    then have "round_half_even (a / 2 powi ulp_exp b) \<le> round_half_even (b / 2 powi ulp_exp b)"
      by (rule round_half_even_mono)
    then have "(of_int (round_half_even (a / 2 powi ulp_exp b)) :: rat)
                 \<le> of_int (round_half_even (b / 2 powi ulp_exp b))"
      by (simp only: of_int_le_iff)
    then show ?thesis by (simp add: round_mag_def True mult_right_mono)
  next
    case False
    then have lt: "ulp_exp a < ulp_exp b" using ulp_exp_mono [OF a assms(2)] by simp
    then have "- 1074 < ulp_exp b" using ulp_exp_ge [of a] by linarith
    then have "2 powi (ulp_exp b + 52) \<le> round_mag b" by (rule round_mag_lower [OF b])
    moreover have "round_mag a \<le> 2 powi (ulp_exp a + 53)" by (rule round_mag_upper [OF a])
    moreover have "(2::rat) powi (ulp_exp a + 53) \<le> 2 powi (ulp_exp b + 52)"
      using lt by (simp add: pow2_le_iff)
    ultimately show ?thesis by linarith
  qed
qed

lemma pow2_numeral: "(2::rat) ^ 1024 = 2 powi 1024" "(2::rat) ^ 53 = 2 powi 53" "(2::rat) ^ 52 = 2 powi 52"
  by (simp_all only: power_int_numeral)

lemma ulp_exp_zero: "ulp_exp 0 = - 54"
  by code_simp

lemma overflow_iff:
  assumes "0 \<le> a"
  shows "2 ^ 1024 \<le> round_mag a \<longleftrightarrow>
     971 < ulp_exp a \<or> (ulp_exp a = 971 \<and> 2 ^ 53 \<le> round_half_even (a / 2 powi ulp_exp a))"
proof (cases "0 < a")
  case False
  then have "a = 0" using assms by simp
  then show ?thesis by (simp add: ulp_exp_zero)
next
  case a: True
  let ?e = "ulp_exp a" and ?m = "round_half_even (a / 2 powi ulp_exp a)"
  consider "?e < 971" | "?e = 971" | "971 < ?e" by linarith
  then show ?thesis
  proof cases
    case 1
    have "round_mag a \<le> 2 powi (?e + 53)" by (rule round_mag_upper [OF a])
    also have "\<dots> < 2 powi 1024" using 1 by (simp only: pow2_less_iff)
    finally show ?thesis using 1 by (simp only: pow2_numeral) simp
  next
    case 2
    have "(2::rat) powi 1024 = 2 powi 53 * 2 powi 971" by (simp only: flip: pow2_add) simp
    then have "(2::rat) powi 1024 \<le> round_mag a \<longleftrightarrow>
        (2::rat) powi 53 * 2 powi 971 \<le> of_int ?m * 2 powi 971"
      by (simp only: round_mag_def 2)
    also have "\<dots> \<longleftrightarrow> (2::rat) powi 53 \<le> of_int ?m"
      by (rule mult_le_cancel_right_pos) (rule pow2_pos)
    also have "\<dots> \<longleftrightarrow> (of_int (2 ^ 53) :: rat) \<le> of_int ?m"
      by (simp only: pow2_numeral(2) [symmetric] of_int_power of_int_numeral)
    also have "\<dots> \<longleftrightarrow> 2 ^ 53 \<le> ?m" by (simp only: of_int_le_iff)
    finally show ?thesis using 2 by (simp only: pow2_numeral(1)) simp
  next
    case 3
    then have "- 1074 < ?e" by simp
    then have "2 powi (?e + 52) \<le> round_mag a" by (rule round_mag_lower [OF a])
    moreover have "(2::rat) powi 1024 \<le> 2 powi (?e + 52)" using 3 by (simp only: pow2_le_iff)
    ultimately show ?thesis using 3 by (simp only: pow2_numeral) simp
  qed
qed

lemma round_double_code [code]:
  "round_double x =
     (let a = \<bar>x\<bar>; e = ulp_exp a; m = round_half_even (a / 2 powi e)
      in if 971 < e \<or> (e = 971 \<and> 2 ^ 53 \<le> m) then (if 0 < x then PInf else NInf)
         else Fin (if 0 < x then of_int m * 2 powi e else - (of_int m * 2 powi e)))"
  by (simp only: round_double_def Let_def overflow_iff [OF abs_ge_zero]) (simp only: round_mag_def)

lemma round_double_mono:
  assumes "x \<le> y"
  shows "le (round_double x) (round_double y)"
proof -
  consider "0 < x" | "x \<le> 0" "0 < y" | "y \<le> 0" using assms by linarith
  then show ?thesis
  proof cases
    case 1
    then have "round_mag \<bar>x\<bar> \<le> round_mag \<bar>y\<bar>" using assms by (simp add: round_mag_mono)
    then show ?thesis using 1 assms by (auto simp: round_double_def Let_def)
  next
    case 2
    have "0 \<le> round_mag \<bar>x\<bar>" "0 \<le> round_mag \<bar>y\<bar>" by (simp_all add: round_mag_nonneg)
    then show ?thesis using 2 by (auto simp: round_double_def Let_def)
  next
    case 3
    then have "round_mag \<bar>y\<bar> \<le> round_mag \<bar>x\<bar>" using assms by (simp add: round_mag_mono)
    then show ?thesis using 3 assms by (auto simp: round_double_def Let_def)
  qed
qed

lemma double_grid:
  assumes "is_double u"
  shows "\<exists>m. \<bar>u\<bar> = of_int m * 2 powi ulp_exp \<bar>u\<bar>"
proof -
  have "round_double u = Fin u" using assms by (simp add: is_double_def)
  then have "\<bar>u\<bar> = round_mag \<bar>u\<bar>"
    by (auto simp: round_double_def Let_def split: if_splits)
  then show ?thesis unfolding round_mag_def by blast
qed

lemma double_below_one:
  assumes "is_double u" and "u < 1"
  shows "u \<le> 1 - 1 / 2 ^ 53"
proof (rule ccontr)
  assume "\<not> u \<le> 1 - 1 / 2 ^ 53"
  then have lo: "1 - 1 / 2 ^ 53 < u" by simp
  then have half: "1 / 2 \<le> u" by simp
  have "flog2 u = - 1"
    by (rule flog2_unique) (use half assms(2) in \<open>simp_all add: power_int_minus\<close>)
  then have e: "ulp_exp u = - 53" by (simp add: ulp_exp_def)
  have au: "\<bar>u\<bar> = u" using half by simp
  obtain m where "u = of_int m * 2 powi (- 53)"
    using double_grid [OF assms(1)] unfolding au e by blast
  then have "u = of_int m / 2 ^ 53" by (simp add: power_int_minus field_simps)
  then have m: "u * 9007199254740992 = of_int m" by simp
  have "9007199254740991 < u * 9007199254740992" using lo by simp
  then have "9007199254740991 < (of_int m :: rat)" by (simp only: m)
  then have 1: "9007199254740991 < m" by simp
  have "u * 9007199254740992 < 9007199254740992" using assms(2) by simp
  then have "(of_int m :: rat) < 9007199254740992" by (simp only: m)
  then have 2: "m < 9007199254740992" by simp
  from 1 2 show False by simp
qed

lemma round_between:
  assumes "a \<le> x" and "x \<le> b" and "round_double a = Fin a'" and "round_double b = Fin b'"
  shows "\<exists>y. round_double x = Fin y \<and> a' \<le> y \<and> y \<le> b'"
  using round_double_mono [OF assms(1)] round_double_mono [OF assms(2)] assms(3,4)
  by (cases "round_double x") simp_all


lemma random_factor_range:
  assumes "is_double u" and "0 \<le> u" and "u < 1"
  shows "\<exists>r. random_factor (Fin u) = Fin r
           \<and> 3602879701896397 / 4503599627370496 \<le> r \<and> r \<le> 5404319552844595 / 4503599627370496"
proof -
  let ?c4 = "3602879701896397 / 9007199254740992 :: rat"
  let ?c8 = "3602879701896397 / 4503599627370496 :: rat"
  let ?top = "1 - 1 / 2 ^ 53 :: rat"
  have l4: "lit (4 / 10) = Fin ?c4" by code_simp
  have l8: "lit (8 / 10) = Fin ?c8" by code_simp
  have u: "u \<le> ?top" by (rule double_below_one [OF assms(1,3)])
  have a1: "0 * ?c4 \<le> u * ?c4" using assms(2) by (intro mult_right_mono) simp_all
  have a2: "u * ?c4 \<le> ?top * ?c4" using u by (intro mult_right_mono) simp_all
  have r1: "round_double (0 * ?c4) = Fin 0" by code_simp
  have r2: "round_double (?top * ?c4) = Fin (7205759403792793 / 18014398509481984)" by code_simp
  obtain t where t: "round_double (u * ?c4) = Fin t" "0 \<le> t" "t \<le> 7205759403792793 / 18014398509481984"
    using round_between [OF a1 a2 r1 r2] by blast
  have b1: "?c8 + 0 \<le> ?c8 + t" using t(2) by simp
  have b2: "?c8 + t \<le> ?c8 + 7205759403792793 / 18014398509481984" using t(3) by simp
  have s1: "round_double (?c8 + 0) = Fin (3602879701896397 / 4503599627370496)" by code_simp
  have s2: "round_double (?c8 + 7205759403792793 / 18014398509481984)
              = Fin (5404319552844595 / 4503599627370496)" by code_simp
  obtain r where r: "round_double (?c8 + t) = Fin r"
      "3602879701896397 / 4503599627370496 \<le> r" "r \<le> 5404319552844595 / 4503599627370496"
    using round_between [OF b1 b2 s1 s2] by blast
  have "random_factor (Fin u) = Fin r"
    by (simp only: random_factor_def l4 l8 fmul.simps fadd.simps t(1) r(1))
  then show ?thesis using r(2,3) by blast
qed

lemma predicted_price_range:
  assumes "3602879701896397 / 4503599627370496 \<le> r" and "r \<le> 5404319552844595 / 4503599627370496"
  shows "\<exists>y. fadd (Fin 102) (fmul (fsub (Fin 102) (Fin 100)) (Fin r)) = Fin y
           \<and> 3645100948402995 / 35184372088832 \<le> y \<and> y \<le> 3673248446074061 / 35184372088832"
proof -
  let ?lo = "3602879701896397 / 4503599627370496 :: rat"
  let ?hi = "5404319552844595 / 4503599627370496 :: rat"
  have d: "fsub (Fin 102) (Fin 100) = Fin 2" by code_simp
  have a1: "2 * ?lo \<le> 2 * r" using assms(1) by simp
  have a2: "2 * r \<le> 2 * ?hi" using assms(2) by simp
  have r1: "round_double (2 * ?lo) = Fin (3602879701896397 / 2251799813685248)" by code_simp
  have r2: "round_double (2 * ?hi) = Fin (5404319552844595 / 2251799813685248)" by code_simp
  obtain w where w: "round_double (2 * r) = Fin w"
      "3602879701896397 / 2251799813685248 \<le> w" "w \<le> 5404319552844595 / 2251799813685248"
    using round_between [OF a1 a2 r1 r2] by blast
  have b1: "102 + 3602879701896397 / 2251799813685248 \<le> 102 + w" using w(2) by simp
  have b2: "102 + w \<le> 102 + 5404319552844595 / 2251799813685248" using w(3) by simp
  have s1: "round_double (102 + 3602879701896397 / 2251799813685248)
              = Fin (3645100948402995 / 35184372088832)" by code_simp
  have s2: "round_double (102 + 5404319552844595 / 2251799813685248)
              = Fin (3673248446074061 / 35184372088832)" by code_simp
  obtain y where y: "round_double (102 + w) = Fin y"
      "3645100948402995 / 35184372088832 \<le> y" "y \<le> 3673248446074061 / 35184372088832"
    using round_between [OF b1 b2 s1 s2] by blast
  have "fadd (Fin 102) (fmul (fsub (Fin 102) (Fin 100)) (Fin r)) = Fin y"
    by (simp only: d fmul.simps fadd.simps w(1) y(1))
  then show ?thesis using y(2,3) by blast
qed

lemma round_mag_near:
  assumes "0 \<le> a" and "a < 2 powi K" and "- 1021 \<le> K"
  shows "\<bar>round_mag a - a\<bar> \<le> 2 powi (K - 54)"
proof (cases "a = 0")
  case True
  then show ?thesis by simp
next
  case False
  then have a: "0 < a" using assms(1) by simp
  have "2 powi flog2 a < (2::rat) powi K"
    using flog2_bounds(1) [OF a] assms(2) by linarith
  then have "flog2 a < K" by (simp add: pow2_less_iff)
  then have "ulp_exp a \<le> K - 53" using assms(3) by (simp add: ulp_exp_def)
  then have "(2::rat) powi ulp_exp a \<le> 2 powi (K - 53)" by (simp add: pow2_le_iff)
  moreover have "(2::rat) powi (K - 53) = 2 * 2 powi (K - 54)"
    using pow2_add [of 1 "K - 54"] by simp
  ultimately have "2 powi ulp_exp a / 2 \<le> (2::rat) powi (K - 54)" by simp
  then show ?thesis using round_mag_error [of a] by linarith
qed

lemma round_double_near:
  assumes "\<bar>y\<bar> < 2 powi K" and "- 1021 \<le> K" and "K \<le> 1023"
  shows "\<exists>z. round_double y = Fin z \<and> \<bar>z - y\<bar> \<le> 2 powi (K - 54)"
proof -
  let ?d = "(2::rat) powi (K - 54)"
  have e: "\<bar>round_mag \<bar>y\<bar> - \<bar>y\<bar>\<bar> \<le> ?d"
    by (rule round_mag_near [OF _ assms(1,2)]) simp
  have "?d < 2 powi K" by (simp add: pow2_less_iff)
  then have "round_mag \<bar>y\<bar> < 2 powi K + 2 powi K" using e assms(1) by linarith
  also have "\<dots> = 2 powi (K + 1)" using pow2_add [of 1 K] by (simp add: add.commute)
  also have "\<dots> \<le> 2 powi 1024" by (rule pow2_le) (use assms(3) in simp)
  finally have "\<not> 2 ^ 1024 \<le> round_mag \<bar>y\<bar>" by (simp only: pow2_numeral(1) not_le)
  then have r: "round_double y = Fin (if 0 < y then round_mag \<bar>y\<bar> else - round_mag \<bar>y\<bar>)"
    by (simp add: round_double_def Let_def)
  have "\<bar>(if 0 < y then round_mag \<bar>y\<bar> else - round_mag \<bar>y\<bar>) - y\<bar> \<le> ?d"
    using e by (auto simp: abs_le_iff split: if_splits)
  then show ?thesis using r by blast
qed

lemma round_mag_pow2:
  assumes "- 1022 \<le> k"
  shows "round_mag (2 powi k) = 2 powi k"
proof -
  have "flog2 (2 powi k) = k" by (rule flog2_unique) (simp_all add: pow2_less_iff)
  then have e: "ulp_exp (2 powi k) = k - 52" using assms by (simp add: ulp_exp_def)
  have "(2::rat) powi k = 2 powi 52 * 2 powi (k - 52)" using pow2_add [of 52 "k - 52"] by simp
  then have q: "(2::rat) powi k / 2 powi (k - 52) = of_int (2 ^ 52)" by simp
  have "round_mag (2 powi k) = of_int (2 ^ 52) * 2 powi (k - 52)"
    unfolding round_mag_def e q round_half_even_of_int ..
  also have "\<dots> = 2 powi 52 * 2 powi (k - 52)" by simp
  also have "\<dots> = 2 powi k" using pow2_add [of 52 "k - 52"] by simp
  finally show ?thesis .
qed

lemma round_double_neg_pow2:
  assumes "- 1022 \<le> k"
  shows "round_double (- (2 powi k)) = (if k \<le> 1023 then Fin (- (2 powi k)) else NInf)"
proof -
  have a: "\<bar>- ((2::rat) powi k)\<bar> = 2 powi k" by simp
  have n: "\<not> 0 < - ((2::rat) powi k)" using pow2_pos [of k] by linarith
  have o: "(2 ^ 1024 \<le> (2::rat) powi k) = (1024 \<le> k)"
    by (simp only: pow2_numeral(1) pow2_le_iff)
  show ?thesis
    unfolding round_double_def Let_def a round_mag_pow2 [OF assms] o using n by auto
qed

section \<open>Facts about the reduction and the timers\<close>

lemma foldl_exact:
  "exact_from s xs \<Longrightarrow> foldl fadd (Fin s) xs = Fin (s + sum_list (map fin_value xs))"
proof (induction s xs rule: exact_from.induct)
  case (1 s)
  then show ?case by simp
next
  case (2 s x xs)
  then show ?case by (simp add: is_double_def add.assoc)
qed simp_all

lemma reduce_as_foldl:
  "foldl (\<lambda>sum stock. fadd sum (changesPercentage stock)) a qs = foldl fadd a (map changesPercentage qs)"
  by (induction qs arbitrary: a) simp_all

lemma average_exact:
  assumes "exact_sums qs"
  shows "average qs = fdiv (Fin (sum_list (map (fin_value \<circ> changesPercentage) qs))) (Fin (of_nat (length qs)))"
  using foldl_exact [of 0 "map changesPercentage qs"] assms
  by (simp add: average_def exact_sums_def reduce_as_foldl)


lemma foldl_near:
  assumes "\<bar>s - e\<bar> \<le> c"
    and "\<bar>e\<bar> + sum_list (map abs vs) + c + of_nat (length vs) * 2 powi (K - 54) < 2 powi K"
    and "- 1021 \<le> K" and "K \<le> 1023"
  shows "\<exists>z. foldl fadd (Fin s) (map Fin vs) = Fin z
           \<and> \<bar>z - (e + sum_list vs)\<bar> \<le> c + of_nat (length vs) * 2 powi (K - 54)"
  using assms(1,2)
proof (induction vs arbitrary: s e c)
  case Nil
  then show ?case by simp
next
  case (Cons v vs)
  let ?d = "(2::rat) powi (K - 54)"
  have d: "0 < ?d" by (rule pow2_pos)
  have rest: "0 \<le> sum_list (map abs vs)" by (rule sum_list_nonneg) auto
  have len: "(0::rat) \<le> of_nat (length vs) * ?d" using d by simp
  have b: "\<bar>e\<bar> + \<bar>v\<bar> + sum_list (map abs vs) + c + (of_nat (length vs) * ?d + ?d) < 2 powi K"
    using Cons.prems(2) by (simp add: algebra_simps)
  have "\<bar>s + v\<bar> \<le> \<bar>e\<bar> + c + \<bar>v\<bar>" using Cons.prems(1) by linarith
  then have "\<bar>s + v\<bar> < 2 powi K" using b rest len d by linarith
  then obtain s' where s': "round_double (s + v) = Fin s'" "\<bar>s' - (s + v)\<bar> \<le> ?d"
    using round_double_near [OF _ assms(3,4)] by blast
  have 1: "\<bar>s' - (e + v)\<bar> \<le> c + ?d" using s'(2) Cons.prems(1) by linarith
  have 2: "\<bar>e + v\<bar> + sum_list (map abs vs) + (c + ?d) + of_nat (length vs) * ?d < 2 powi K"
    using b by linarith
  obtain z where z: "foldl fadd (Fin s') (map Fin vs) = Fin z"
      "\<bar>z - (e + v + sum_list vs)\<bar> \<le> c + ?d + of_nat (length vs) * ?d"
    using Cons.IH [OF 1 2] by blast
  have "foldl fadd (Fin s) (map Fin (v # vs)) = Fin z" by (simp add: s'(1) z(1))
  moreover have "\<bar>z - (e + sum_list (v # vs))\<bar> \<le> c + of_nat (length (v # vs)) * ?d"
    using z(2) by (simp add: algebra_simps)
  ultimately show ?case by blast
qed

lemma finite_values:
  "list_all (\<lambda>q. is_fin (changesPercentage q)) qs \<Longrightarrow>
     map changesPercentage qs = map Fin (map (\<lambda>q. fin_value (changesPercentage q)) qs)"
proof (induction qs)
  case Nil
  then show ?case by simp
next
  case (Cons q qs)
  then show ?case by (cases "changesPercentage q") simp_all
qed

lemma abs_sum_list_le: "\<bar>sum_list (vs :: rat list)\<bar> \<le> sum_list (map abs vs)"
  by (induction vs) auto

lemma average_near:
  assumes "qs \<noteq> []" and "magnitude_below K qs"
  shows "\<exists>a. average qs = Fin a \<and> \<bar>a - exact_mean qs\<bar> \<le> 2 powi (K - 53)"
proof -
  let ?d = "(2::rat) powi (K - 54)"
  let ?vs = "map (\<lambda>q. fin_value (changesPercentage q)) qs"
  let ?n = "of_nat (length qs) :: rat"
  have K: "- 1021 \<le> K" "K \<le> 1023" using assms(2) by (simp_all add: magnitude_below_def)
  have fin: "map changesPercentage qs = map Fin ?vs"
    using assms(2) by (simp add: magnitude_below_def finite_values)
  have A: "sum_list (map abs ?vs) = abs_total qs" by (simp add: abs_total_def comp_def)
  have bound: "abs_total qs + ?n * ?d < 2 powi K" using assms(2) by (simp add: magnitude_below_def)
  have n: "1 \<le> ?n" using assms(1) by (cases qs) simp_all
  have d: "0 < ?d" by (rule pow2_pos)
  have pre: "\<bar>0::rat\<bar> + sum_list (map abs ?vs) + 0 + of_nat (length ?vs) * ?d
               = abs_total qs + ?n * ?d"
    by (simp add: abs_total_def comp_def)
  have "\<bar>0 - 0 :: rat\<bar> \<le> 0" by simp
  moreover have "\<bar>0::rat\<bar> + sum_list (map abs ?vs) + 0 + of_nat (length ?vs) * ?d < 2 powi K"
    unfolding pre by (rule bound)
  ultimately obtain z where z: "foldl fadd (Fin 0) (map Fin ?vs) = Fin z"
      "\<bar>z - (0 + sum_list ?vs)\<bar> \<le> 0 + of_nat (length ?vs) * ?d"
    using foldl_near [OF _ _ K, of 0 0 0 ?vs] by blast
  have zs: "\<bar>z - sum_list ?vs\<bar> \<le> ?n * ?d" using z(2) by simp
  have "\<bar>z\<bar> \<le> abs_total qs + ?n * ?d"
    using zs abs_sum_list_le [of ?vs] unfolding A by linarith
  then have zb: "\<bar>z\<bar> < 2 powi K" using bound by linarith
  have "\<bar>z\<bar> / ?n \<le> \<bar>z\<bar> / 1" by (rule divide_left_mono) (use n assms(1) in simp_all)
  moreover have "\<bar>z / ?n\<bar> = \<bar>z\<bar> / ?n" by simp
  ultimately have "\<bar>z / ?n\<bar> \<le> \<bar>z\<bar>" by simp
  then have "\<bar>z / ?n\<bar> < 2 powi K" using zb by linarith
  then obtain a where a: "round_double (z / ?n) = Fin a" "\<bar>a - z / ?n\<bar> \<le> ?d"
    using round_double_near [OF _ K] by blast
  have "average qs = fdiv (foldl fadd (Fin 0) (map Fin ?vs)) (Fin ?n)"
    by (simp only: average_def reduce_as_foldl fin)
  also have "\<dots> = fdiv (Fin z) (Fin ?n)" by (simp only: z(1))
  also have "\<dots> = round_double (z / ?n)" using assms(1) by simp
  finally have avg: "average qs = Fin a" by (simp only: a(1))
  have "\<bar>z / ?n - sum_list ?vs / ?n\<bar> = \<bar>z - sum_list ?vs\<bar> / ?n"
    by (simp add: diff_divide_distrib [symmetric])
  also have "\<dots> \<le> (?n * ?d) / ?n" using zs by (intro divide_right_mono) simp_all
  also have "\<dots> = ?d" using assms(1) by simp
  finally have "\<bar>a - sum_list ?vs / ?n\<bar> \<le> ?d + ?d" using a(2) by linarith
  moreover have "(2::rat) powi (K - 53) = ?d + ?d" using pow2_add [of 1 "K - 54"] by simp
  ultimately show ?thesis using avg by (simp add: exact_mean_def)
qed


lemma plunge_average: "average [plunge, plunge] = NInf"
proof -
  let ?p = "(2::rat) powi 1023"
  have 1: "fadd (Fin 0) (Fin (- ?p)) = Fin (- ?p)"
    using round_double_neg_pow2 [of 1023] by (simp only: fadd.simps add_0) simp
  have "(2::rat) powi (1023 + 1) = ?p + ?p" by (simp only: pow2_add) simp
  moreover have "(1023::int) + 1 = 1024" by simp
  ultimately have "(2::rat) powi 1024 = ?p + ?p" by (simp only:)
  then have "- ?p + - ?p = - (2 powi 1024)" by (simp only: minus_add_distrib)
  then have 2: "fadd (Fin (- ?p)) (Fin (- ?p)) = NInf"
    using round_double_neg_pow2 [of 1024] by (simp only: fadd.simps) simp
  have "average [plunge, plunge] = fdiv (fadd (fadd (Fin 0) (Fin (- ?p))) (Fin (- ?p))) (Fin 2)"
    by (simp add: average_def plunge_def del: fadd.simps power_int_numeral)
  then show ?thesis by (simp only: 1 2 fdiv.simps) simp
qed



lemma firings_other:
  "ident t \<noteq> i \<Longrightarrow> filter (\<lambda>(t, src, cb). src = Some i) (firings T t) = []"
  by (auto simp: firings_def filter_empty_conv)

lemma firings_others:
  "\<forall>t \<in> set ts. ident t \<noteq> i \<Longrightarrow>
     filter (\<lambda>(t, src, cb). src = Some i) (concat (map (firings T) ts)) = []"
  by (induction ts) (simp_all add: firings_other)

lemma firings_own:
  "filter (\<lambda>(t, src, cb). src = Some (ident t')) (firings T t') = firings T t'"
  by (auto simp: firings_def filter_id_conv)

lemma elapse_cleared:
  assumes "\<forall>t \<in> set (intervals h). ident t \<noteq> i"
  shows "runs_of i (elapse dt h) = runs_of i h"
    and "\<forall>t \<in> set (intervals (elapse dt h)). ident t \<noteq> i"
  using assms by (simp_all add: runs_of_def elapse_def Let_def firings_others)

lemma elapses_cleared:
  assumes "\<forall>t \<in> set (intervals h). ident t \<noteq> i"
  shows "runs_of i (elapses dts h) = runs_of i h \<and> (\<forall>t \<in> set (intervals (elapses dts h)). ident t \<noteq> i)"
  using assms
proof (induction dts arbitrary: h)
  case Nil
  then show ?case by (simp add: elapses_def)
next
  case (Cons dt dts)
  have "elapses (dt # dts) h = elapses dts (elapse dt h)" by (simp add: elapses_def)
  then show ?case
    using Cons.IH [OF elapse_cleared(2) [OF Cons.prems]] elapse_cleared(1) [OF Cons.prems]
    by simp
qed

lemma clearInterval_cleared: "\<forall>t \<in> set (intervals (clearInterval i h)). ident t \<noteq> i"
  by (simp add: clearInterval_def)

lemma runs_of_clearInterval: "runs_of i (clearInterval j h) = runs_of i h"
  by (simp add: runs_of_def clearInterval_def)

lemma mount_runs:
  assumes "fresh_ids h"
  shows "runs_of (fst (mount h)) (elapse dt (snd (mount h)))
           = map (\<lambda>k. (now h + 60000 * (k + 1), FetchDashboardData)) [0 ..< dt div 60000]"
proof -
  let ?new = "\<lparr>ident = next_id h, period = 60000, due = now h + 60000, callback = FetchDashboardData\<rparr>"
  have old: "\<forall>t \<in> set (intervals h). ident t \<noteq> next_id h"
    using assms by (auto simp: fresh_ids_def list_all_iff)
  have past: "filter (\<lambda>(t, src, cb). src = Some (next_id h)) (log h) = []"
    using assms by (auto simp: fresh_ids_def list_all_iff filter_empty_conv split: option.splits)
  have n: "runs (now h + dt) ?new = dt div 60000"
    by (auto simp: runs_def le_div_geq not_less)
  have own: "filter (\<lambda>(t, src, cb). src = Some (next_id h)) (firings (now h + dt) ?new)
               = firings (now h + dt) ?new"
    using firings_own [of ?new] by simp
  show ?thesis
    by (simp add: mount_def setInterval_def call_def elapse_def Let_def runs_of_def
        firings_others [OF old] past own)
       (simp add: firings_def n comp_def)
qed

section \<open>Properties of the proxy service\<close>

lemmas handler_defs =
  github_user_def github_repos_def github_commits_def gitlab_user_def gitlab_projects_def
  gitlab_commits_def gitlab_search_def user_lookup_def projects_of_def
  res_json_def res_status_json_def envelope_def search_failure_def search_not_found_def

text \<open>
  C3. In the GitLab search composite, when the upstream user lookup fulfils with the empty
  list, the handler answers 404 with a body whose members are exactly \<open>message\<close> and
  \<open>suggestion\<close>, the only request it has issued is the lookup, and no projects request
  (for whatever user id) is among the issued requests.
\<close>

theorem gitlab_search_no_match:
  assumes "axios_get (user_lookup username) = Fulfilled (JArr [])"
  shows "status (snd (gitlab_search print axios_get username)) = 404
       \<and> keys (body (snd (gitlab_search print axios_get username))) = [''message'', ''suggestion'']
       \<and> is_string (field ''message'' (body (snd (gitlab_search print axios_get username))))
       \<and> is_string (field ''suggestion'' (body (snd (gitlab_search print axios_get username))))
       \<and> fst (gitlab_search print axios_get username) = [user_lookup username]
       \<and> (\<forall>uid. projects_of uid \<notin> set (fst (gitlab_search print axios_get username)))"
  using assms
  by (simp add: gitlab_search_def Let_def res_status_json_def search_not_found_def
      user_lookup_def projects_of_def)

theorem gitlab_search_no_match_witness:
  "always (Fulfilled (JArr [])) (user_lookup ''nobody'') = Fulfilled (JArr [])
   \<and> status (snd (gitlab_search unprinted (always (Fulfilled (JArr []))) ''nobody'')) = 404
   \<and> fst (gitlab_search unprinted (always (Fulfilled (JArr []))) ''nobody'') = [user_lookup ''nobody'']"
proof -
  have h: "always (Fulfilled (JArr [])) (user_lookup ''nobody'') = Fulfilled (JArr [])"
    by (simp add: always_def)
  from gitlab_search_no_match [of "always (Fulfilled (JArr []))" "''nobody''" unprinted] h
  show ?thesis by simp
qed

text \<open>
  C7. Every route starts by issuing its first request. When the upstream rejects that
  request (timeout, network error, or a status outside 2xx, 5xx included), the handler
  answers 500 with a JSON object whose \<open>message\<close> member is a string, and has issued
  nothing else. The search composite answers in the same way when its lookup succeeds
  and the upstream rejects the projects request that follows.
\<close>

theorem upstream_failure_500:
  "take 1 (fst (handle parse print axios_get rt)) = [first_request rt]
   \<and> (rejected (axios_get (first_request rt)) \<longrightarrow>
        status (snd (handle parse print axios_get rt)) = 500
        \<and> is_string (field ''message'' (body (snd (handle parse print axios_get rt))))
        \<and> fst (handle parse print axios_get rt) = [first_request rt])
   \<and> (axios_get (user_lookup username) = Fulfilled d \<and> truthy d \<and> js_length d \<noteq> JNum (Fin 0)
        \<and> js_prop ''id'' (js_first d) = Some uid
        \<and> rejected (axios_get (projects_of (to_string print uid))) \<longrightarrow>
        status (snd (gitlab_search print axios_get username)) = 500
        \<and> is_string (field ''message'' (body (snd (gitlab_search print axios_get username))))
        \<and> fst (gitlab_search print axios_get username)
            = [user_lookup username, projects_of (to_string print uid)])"
proof (intro conjI impI)
  show "take 1 (fst (handle parse print axios_get rt)) = [first_request rt]"
    by (cases rt) (auto simp: handler_defs Let_def split: settled.splits option.splits)
next
  assume r: "rejected (axios_get (first_request rt))"
  then show "status (snd (handle parse print axios_get rt)) = 500"
    by (cases rt; cases "axios_get (first_request rt)") (auto simp: handler_defs Let_def)
  from r show "is_string (field ''message'' (body (snd (handle parse print axios_get rt))))"
    by (cases rt; cases "axios_get (first_request rt)") (auto simp: handler_defs Let_def)
  from r show "fst (handle parse print axios_get rt) = [first_request rt]"
    by (cases rt; cases "axios_get (first_request rt)") (auto simp: handler_defs Let_def)
next
  assume h: "axios_get (user_lookup username) = Fulfilled d \<and> truthy d \<and> js_length d \<noteq> JNum (Fin 0)
        \<and> js_prop ''id'' (js_first d) = Some uid
        \<and> rejected (axios_get (projects_of (to_string print uid)))"
  then obtain m where m: "axios_get (projects_of (to_string print uid)) = Rejected m"
    by (cases "axios_get (projects_of (to_string print uid))") simp_all
  from h m show "status (snd (gitlab_search print axios_get username)) = 500"
    by (simp add: gitlab_search_def Let_def res_status_json_def)
  from h m show "is_string (field ''message'' (body (snd (gitlab_search print axios_get username))))"
    by (simp add: gitlab_search_def Let_def res_status_json_def search_failure_def)
  from h m show "fst (gitlab_search print axios_get username)
            = [user_lookup username, projects_of (to_string print uid)]"
    by (simp add: gitlab_search_def Let_def)
qed

theorem upstream_failure_500_witness:
  "rejected (only (user_lookup ''lukhanyo'') (JArr [JObj [(''id'', JNum (Fin 7))]])
               ''timeout of 10000ms exceeded'' (first_request (GithubUser ''Lukhanyo05'')))
   \<and> only (user_lookup ''lukhanyo'') (JArr [JObj [(''id'', JNum (Fin 7))]])
        ''timeout of 10000ms exceeded'' (user_lookup ''lukhanyo'')
       = Fulfilled (JArr [JObj [(''id'', JNum (Fin 7))]])
   \<and> rejected (only (user_lookup ''lukhanyo'') (JArr [JObj [(''id'', JNum (Fin 7))]])
               ''timeout of 10000ms exceeded'' (projects_of (to_string unprinted (JNum (Fin 7)))))
   \<and> status (snd (handle unparsed unprinted
        (only (user_lookup ''lukhanyo'') (JArr [JObj [(''id'', JNum (Fin 7))]]) ''timeout of 10000ms exceeded'')
        (GithubUser ''Lukhanyo05''))) = 500
   \<and> status (snd (gitlab_search unprinted
        (only (user_lookup ''lukhanyo'') (JArr [JObj [(''id'', JNum (Fin 7))]]) ''timeout of 10000ms exceeded'')
        ''lukhanyo'')) = 500"
proof -
  let ?d = "JArr [JObj [(''id'', JNum (Fin 7))]]"
  let ?up = "only (user_lookup ''lukhanyo'') ?d ''timeout of 10000ms exceeded''"
  note T = upstream_failure_500 [of unparsed unprinted ?up "GithubUser ''Lukhanyo05''"
      "''lukhanyo''" ?d "JNum (Fin 7)"]
  have h1: "rejected (?up (first_request (GithubUser ''Lukhanyo05'')))"
    by (simp add: only_def user_lookup_def)
  have h2: "?up (user_lookup ''lukhanyo'') = Fulfilled ?d" by (simp add: only_def)
  have h3: "rejected (?up (projects_of (to_string unprinted (JNum (Fin 7)))))"
    by (simp add: only_def user_lookup_def projects_of_def)
  have h4: "truthy ?d \<and> js_length ?d \<noteq> JNum (Fin 0)
              \<and> js_prop ''id'' (js_first ?d) = Some (JNum (Fin 7))"
    by simp
  from T h1 h2 h3 h4 show ?thesis by blast
qed

text \<open>
  C2, as the code has it. The five relaying routes (GitHub user, repositories and commits,
  GitLab projects and commits) answer 200 with a body equal to the upstream body whenever
  the upstream fulfils with a truthy body. The GitLab user route answers 200 with the
  first element of a non-empty upstream list, and the search composite answers 200 with
  the object \<open>{user, projects, success}\<close> built from the first match and the projects
  body.
\<close>

theorem proxy_success:
  "(passthrough rt \<and> truthy d
      \<and> list_all (\<lambda>r. axios_get r = Fulfilled d) (fst (handle parse print axios_get rt)) \<longrightarrow>
      snd (handle parse print axios_get rt) = \<lparr>status = 200, body = d\<rparr>)
   \<and> (axios_get \<lparr>url = ''https://gitlab.com/api/v4/users?username='' @ encodeURIComponent username,
                   timeout = 10000, headers = gitlab_headers\<rparr> = Fulfilled (JArr (x # xs)) \<longrightarrow>
        snd (gitlab_user parse axios_get username) = \<lparr>status = 200, body = x\<rparr>)
   \<and> (axios_get (user_lookup username) = Fulfilled (JArr (x # xs)) \<and> js_prop ''id'' x = Some uid
      \<and> axios_get (projects_of (to_string print uid)) = Fulfilled p \<longrightarrow>
        snd (gitlab_search print axios_get username) =
          \<lparr>status = 200,
           body = JObj [(''user'', x), (''projects'', or_empty p), (''success'', JBool True)]\<rparr>)"
proof (intro conjI impI)
  assume "passthrough rt \<and> truthy d
      \<and> list_all (\<lambda>r. axios_get r = Fulfilled d) (fst (handle parse print axios_get rt))"
  then show "snd (handle parse print axios_get rt) = \<lparr>status = 200, body = d\<rparr>"
    by (cases rt) (auto simp: handler_defs Let_def or_empty_def split: settled.splits)
next
  assume "axios_get \<lparr>url = ''https://gitlab.com/api/v4/users?username='' @ encodeURIComponent username,
                   timeout = 10000, headers = gitlab_headers\<rparr> = Fulfilled (JArr (x # xs))"
  then show "snd (gitlab_user parse axios_get username) = \<lparr>status = 200, body = x\<rparr>"
    by (auto simp: handler_defs Let_def gt_def split: settled.splits)
next
  assume "axios_get (user_lookup username) = Fulfilled (JArr (x # xs)) \<and> js_prop ''id'' x = Some uid
      \<and> axios_get (projects_of (to_string print uid)) = Fulfilled p"
  then show "snd (gitlab_search print axios_get username) =
          \<lparr>status = 200,
           body = JObj [(''user'', x), (''projects'', or_empty p), (''success'', JBool True)]\<rparr>"
    by (simp add: gitlab_search_def Let_def res_json_def)
qed

theorem proxy_success_witness:
  "passthrough (GithubUser ''Lukhanyo05'')
   \<and> truthy (JArr [JObj [(''id'', JNum (Fin 7))]])
   \<and> list_all (\<lambda>r. always (Fulfilled (JArr [JObj [(''id'', JNum (Fin 7))]])) r
                      = Fulfilled (JArr [JObj [(''id'', JNum (Fin 7))]]))
        (fst (handle unparsed unprinted (always (Fulfilled (JArr [JObj [(''id'', JNum (Fin 7))]])))
                (GithubUser ''Lukhanyo05'')))
   \<and> js_prop ''id'' (JObj [(''id'', JNum (Fin 7))]) = Some (JNum (Fin 7))
   \<and> snd (handle unparsed unprinted (always (Fulfilled (JArr [JObj [(''id'', JNum (Fin 7))]])))
                (GithubUser ''Lukhanyo05''))
       = \<lparr>status = 200, body = JArr [JObj [(''id'', JNum (Fin 7))]]\<rparr>
   \<and> snd (gitlab_user unparsed (always (Fulfilled (JArr [JObj [(''id'', JNum (Fin 7))]]))) ''lukhanyo'')
       = \<lparr>status = 200, body = JObj [(''id'', JNum (Fin 7))]\<rparr>
   \<and> snd (gitlab_search unprinted (always (Fulfilled (JArr [JObj [(''id'', JNum (Fin 7))]]))) ''lukhanyo'')
       = \<lparr>status = 200,
          body = JObj [(''user'', JObj [(''id'', JNum (Fin 7))]),
                       (''projects'', JArr [JObj [(''id'', JNum (Fin 7))]]),
                       (''success'', JBool True)]\<rparr>"
proof -
  let ?d = "JArr [JObj [(''id'', JNum (Fin 7))]]"
  note T = proxy_success [of "GithubUser ''Lukhanyo05''" ?d "always (Fulfilled ?d)" unparsed unprinted
      "''lukhanyo''" "JObj [(''id'', JNum (Fin 7))]" "[]" "JNum (Fin 7)" ?d]
  have h1: "passthrough (GithubUser ''Lukhanyo05'') \<and> truthy ?d
      \<and> list_all (\<lambda>r. always (Fulfilled ?d) r = Fulfilled ?d)
           (fst (handle unparsed unprinted (always (Fulfilled ?d)) (GithubUser ''Lukhanyo05'')))"
    by (simp add: always_def list_all_iff)
  have h2: "always (Fulfilled ?d)
              \<lparr>url = ''https://gitlab.com/api/v4/users?username='' @ encodeURIComponent ''lukhanyo'',
               timeout = 10000, headers = gitlab_headers\<rparr> = Fulfilled ?d"
    by (simp add: always_def)
  have h3: "always (Fulfilled ?d) (user_lookup ''lukhanyo'') = Fulfilled ?d
      \<and> js_prop ''id'' (JObj [(''id'', JNum (Fin 7))]) = Some (JNum (Fin 7))
      \<and> always (Fulfilled ?d) (projects_of (to_string unprinted (JNum (Fin 7)))) = Fulfilled ?d"
    by (simp add: always_def)
  have c1: "snd (handle unparsed unprinted (always (Fulfilled ?d)) (GithubUser ''Lukhanyo05''))
              = \<lparr>status = 200, body = ?d\<rparr>"
    using T h1 by blast
  have c2: "snd (gitlab_user unparsed (always (Fulfilled ?d)) ''lukhanyo'')
              = \<lparr>status = 200, body = JObj [(''id'', JNum (Fin 7))]\<rparr>"
    using T h2 by blast
  have c3: "snd (gitlab_search unprinted (always (Fulfilled ?d)) ''lukhanyo'')
              = \<lparr>status = 200,
                 body = JObj [(''user'', JObj [(''id'', JNum (Fin 7))]),
                              (''projects'', or_empty ?d), (''success'', JBool True)]\<rparr>"
    using T h3 by blast
  have o: "or_empty ?d = ?d" by (simp add: or_empty_def)
  from h1 h3 c1 c2 c3 show ?thesis unfolding o by blast
qed

text \<open>
  The claim as the specification states it fails on the GitLab user route: the upstream
  list \<open>[{id: 7}]\<close> is relayed as \<open>{id: 7}\<close>.
\<close>

theorem gitlab_user_body_counterexample:
  "fst (gitlab_user unparsed (always (Fulfilled (JArr [JObj [(''id'', JNum (Fin 7))]]))) ''lukhanyo'')
     = [\<lparr>url = ''https://gitlab.com/api/v4/users?username=lukhanyo'', timeout = 10000,
         headers = [(''Accept'', ''application/json'')]\<rparr>]
   \<and> truthy (JArr [JObj [(''id'', JNum (Fin 7))]])
   \<and> snd (gitlab_user unparsed (always (Fulfilled (JArr [JObj [(''id'', JNum (Fin 7))]]))) ''lukhanyo'')
     = \<lparr>status = 200, body = JObj [(''id'', JNum (Fin 7))]\<rparr>
   \<and> JObj [(''id'', JNum (Fin 7))] \<noteq> JArr [JObj [(''id'', JNum (Fin 7))]]"
  by (simp add: handler_defs always_def Let_def gt_def gitlab_headers_def encodeURIComponent_def unreserved_def)

text \<open>
  C6, as the code has it. Every request a route issues has a timeout of 10000 ms.
  Requests to GitHub carry the header \<open>User-Agent: IntelliSignal-Dashboard\<close>; requests to
  GitLab set no \<open>User-Agent\<close>.
\<close>

theorem outbound_requests:
  "\<forall>r \<in> set (fst (handle parse print axios_get rt)).
      timeout r = 10000
      \<and> user_agent r = (if github_route rt then Some ''IntelliSignal-Dashboard'' else None)"
  by (cases rt)
     (auto simp: user_agent_def handler_defs Let_def github_headers_def gitlab_headers_def
           split: settled.splits option.splits if_splits)

theorem outbound_requests_witness:
  "map timeout (fst (handle unparsed unprinted (always (Fulfilled (JArr []))) (GithubRepos ''Lukhanyo05'')))
     = [10000]
   \<and> map user_agent (fst (handle unparsed unprinted (always (Fulfilled (JArr []))) (GithubRepos ''Lukhanyo05'')))
     = [Some ''IntelliSignal-Dashboard'']"
proof -
  have l: "fst (handle unparsed unprinted (always (Fulfilled (JArr []))) (GithubRepos ''Lukhanyo05''))
     = [\<lparr>url = ''https://api.github.com/users/'' @ encodeURIComponent ''Lukhanyo05''
                @ ''/repos?sort=updated&per_page=10'',
          timeout = 10000, headers = github_headers\<rparr>]"
    by (simp add: github_repos_def always_def Let_def)
  from outbound_requests [of unparsed unprinted "always (Fulfilled (JArr []))" "GithubRepos ''Lukhanyo05''"]
  show ?thesis unfolding l by simp
qed

text \<open>
  The claim as the specification states it fails on the GitLab routes: the search lookup
  is issued with no header at all, the user lookup with \<open>Accept\<close> only.
\<close>

theorem gitlab_request_counterexample:
  "map headers (fst (handle unparsed unprinted (always (Fulfilled (JArr []))) (GitlabSearch ''lukhanyo''))) = [[]]
   \<and> map user_agent (fst (handle unparsed unprinted (always (Fulfilled (JArr []))) (GitlabUser ''lukhanyo''))) = [None]
   \<and> map headers (fst (handle unparsed unprinted (always (Fulfilled (JArr []))) (GitlabUser ''lukhanyo'')))
       = [[(''Accept'', ''application/json'')]]"
  by (simp add: handler_defs always_def Let_def gt_def gitlab_headers_def user_agent_def)

section \<open>Properties of the cards\<close>

text \<open>
  C1, as the code has it. When the request of the GitLab card is rejected, the card ends
  with the warning string, the demo user (whose \<open>username\<close> is the name asked for) and
  the two demo projects, and is no longer loading. When a request of the GitHub card is
  rejected, the card ends with its error string and is no longer loading; its user data
  and repositories stay what they were.
\<close>

theorem card_fetch_failure:
  "(gitlab_fetch_failed axios_get gitlabUsername \<longrightarrow>
      fetchGitLabData axios_get gitlabUsername st =
        st\<lparr>loading := False, error := Some gitlab_warning,
           userData := gitlab_demo_user gitlabUsername, projects := gitlab_demo_projects\<rparr>)
   \<and> (github_fetch_failed axios_get githubUsername \<longrightarrow>
      fetchGitHubData axios_get githubUsername st' = st'\<lparr>loading := False, error := Some github_failure\<rparr>
      \<and> userData (fetchGitHubData axios_get githubUsername st') = userData st'
      \<and> repos (fetchGitHubData axios_get githubUsername st') = repos st')"
  by (auto simp: gitlab_fetch_failed_def github_fetch_failed_def fetchGitLabData_def fetchGitHubData_def
      gitlab_catch_def Let_def split: settled.splits)

theorem card_fetch_failure_witness:
  "gitlab_fetch_failed (always (Rejected ''Network Error'')) ''lukhanyoN''
   \<and> github_fetch_failed (always (Rejected ''Network Error'')) ''Lukhanyo05''
   \<and> userData (fetchGitLabData (always (Rejected ''Network Error'')) ''lukhanyoN''
        (gitlab_card_initial ''lukhanyoN'')) = gitlab_demo_user ''lukhanyoN''
   \<and> error (fetchGitHubData (always (Rejected ''Network Error'')) ''Lukhanyo05''
        (github_card_initial ''Lukhanyo05'')) = Some github_failure"
proof -
  have a: "gitlab_fetch_failed (always (Rejected ''Network Error'')) ''lukhanyoN''"
    by (simp add: gitlab_fetch_failed_def always_def)
  have b: "github_fetch_failed (always (Rejected ''Network Error'')) ''Lukhanyo05''"
    by (simp add: github_fetch_failed_def always_def)
  from card_fetch_failure [of "always (Rejected ''Network Error'')" "''lukhanyoN''"
      "gitlab_card_initial ''lukhanyoN''" "''Lukhanyo05''" "github_card_initial ''Lukhanyo05''"] a b
  show ?thesis by simp
qed

text \<open>
  The claim as the specification states it fails on the GitHub card: after a failed first
  load the user data is still \<open>null\<close> and the repository list is still empty.
\<close>

theorem github_card_failure_counterexample:
  "github_fetch_failed (always (Rejected ''Network Error'')) ''Lukhanyo05''
   \<and> userData (fetchGitHubData (always (Rejected ''Network Error'')) ''Lukhanyo05''
        (github_card_initial ''Lukhanyo05'')) = JNull
   \<and> repos (fetchGitHubData (always (Rejected ''Network Error'')) ''Lukhanyo05''
        (github_card_initial ''Lukhanyo05'')) = JArr []"
  by (simp add: github_fetch_failed_def always_def fetchGitHubData_def github_card_initial_def Let_def)

section \<open>Properties of the predictor\<close>

text \<open>
  C5. For at least two points and any double \<open>u\<close> in \<open>[0, 1)\<close> returned by
  \<open>Math.random()\<close>, the factor \<open>r = 0.8 + u * 0.4\<close> is a double between the doubles
  \<open>0.8\<close> and \<open>1.2\<close>, and the predictor returns the last point with name \<open>Predict\<close>,
  price \<open>last.price + (last.price - previous.price) * r\<close>, the predicted flag, and
  confidence \<open>High\<close> when the absolute trend exceeds 1, \<open>Medium\<close> otherwise. A single
  point is returned unchanged. For the prices 100 and 102 the predicted price is at
  least the double \<open>103.6\<close> and at most the double \<open>104.4\<close>, with confidence \<open>High\<close>.
  All arithmetic and all comparisons are those of JavaScript numbers.
\<close>

theorem predictNextDay_momentum:
  "(2 \<le> length data \<and> is_double u \<and> 0 \<le> u \<and> u < 1 \<longrightarrow>
      (\<exists>r. random_factor (Fin u) = Fin r
         \<and> le (lit (8 / 10)) (Fin r) \<and> le (Fin r) (lit (12 / 10))
         \<and> predictNextDay (Fin u) data =
             Some ((data ! (length data - 1))
                \<lparr>point.name := ''Predict'',
                 point.price :=
                   fadd (point.price (data ! (length data - 1)))
                     (fmul (fsub (point.price (data ! (length data - 1)))
                                 (point.price (data ! (length data - 2)))) (Fin r)),
                 predicted := Some True,
                 confidence :=
                   Some (if gt (fabs (fsub (point.price (data ! (length data - 1)))
                                           (point.price (data ! (length data - 2))))) (Fin 1)
                         then ''High'' else ''Medium'')\<rparr>)))
   \<and> predictNextDay w [p] = Some p
   \<and> (is_double u \<and> 0 \<le> u \<and> u < 1 \<and> point.price p = Fin 100 \<and> point.price q = Fin 102 \<longrightarrow>
      (\<exists>y. predictNextDay (Fin u) [p, q] =
              Some (q\<lparr>point.name := ''Predict'', point.price := Fin y,
                      predicted := Some True, confidence := Some ''High''\<rparr>)
         \<and> le (lit (1036 / 10)) (Fin y) \<and> le (Fin y) (lit (1044 / 10))))"
proof (intro conjI impI)
  assume h: "2 \<le> length data \<and> is_double u \<and> 0 \<le> u \<and> u < 1"
  then obtain r where r: "random_factor (Fin u) = Fin r"
      "3602879701896397 / 4503599627370496 \<le> r" "r \<le> 5404319552844595 / 4503599627370496"
    using random_factor_range [of u] by blast
  have l8: "lit (8 / 10) = Fin (3602879701896397 / 4503599627370496)" by code_simp
  have l12: "lit (12 / 10) = Fin (5404319552844595 / 4503599627370496)" by code_simp
  have b1: "le (lit (8 / 10)) (Fin r)" unfolding l8 le.simps by (rule r(2))
  have b2: "le (Fin r) (lit (12 / 10))" unfolding l12 le.simps by (rule r(3))
  have "\<not> length data < 2" using h by simp
  then have pd: "predictNextDay (Fin u) data =
             Some ((data ! (length data - 1))
                \<lparr>point.name := ''Predict'',
                 point.price :=
                   fadd (point.price (data ! (length data - 1)))
                     (fmul (fsub (point.price (data ! (length data - 1)))
                                 (point.price (data ! (length data - 2)))) (Fin r)),
                 predicted := Some True,
                 confidence :=
                   Some (if gt (fabs (fsub (point.price (data ! (length data - 1)))
                                           (point.price (data ! (length data - 2))))) (Fin 1)
                         then ''High'' else ''Medium'')\<rparr>)"
    by (simp add: predictNextDay_def Let_def r(1))
  show "\<exists>r. random_factor (Fin u) = Fin r
         \<and> le (lit (8 / 10)) (Fin r) \<and> le (Fin r) (lit (12 / 10))
         \<and> predictNextDay (Fin u) data =
             Some ((data ! (length data - 1))
                \<lparr>point.name := ''Predict'',
                 point.price :=
                   fadd (point.price (data ! (length data - 1)))
                     (fmul (fsub (point.price (data ! (length data - 1)))
                                 (point.price (data ! (length data - 2)))) (Fin r)),
                 predicted := Some True,
                 confidence :=
                   Some (if gt (fabs (fsub (point.price (data ! (length data - 1)))
                                           (point.price (data ! (length data - 2))))) (Fin 1)
                         then ''High'' else ''Medium'')\<rparr>)"
    using r(1) b1 b2 pd by blast
next
  show "predictNextDay w [p] = Some p" by (simp add: predictNextDay_def)
next
  assume h: "is_double u \<and> 0 \<le> u \<and> u < 1 \<and> point.price p = Fin 100 \<and> point.price q = Fin 102"
  then obtain r where r: "random_factor (Fin u) = Fin r"
      "3602879701896397 / 4503599627370496 \<le> r" "r \<le> 5404319552844595 / 4503599627370496"
    using random_factor_range [of u] by blast
  obtain y where y: "fadd (Fin 102) (fmul (fsub (Fin 102) (Fin 100)) (Fin r)) = Fin y"
      "3645100948402995 / 35184372088832 \<le> y" "y \<le> 3673248446074061 / 35184372088832"
    using predicted_price_range [OF r(2,3)] by blast
  have lo: "lit (1036 / 10) = Fin (3645100948402995 / 35184372088832)" by code_simp
  have hi: "lit (1044 / 10) = Fin (3673248446074061 / 35184372088832)" by code_simp
  have c: "gt (fabs (fsub (Fin 102) (Fin 100))) (Fin 1)" by code_simp
  have b1: "le (lit (1036 / 10)) (Fin y)" unfolding lo le.simps by (rule y(2))
  have b2: "le (Fin y) (lit (1044 / 10))" unfolding hi le.simps by (rule y(3))
  have pd: "predictNextDay (Fin u) [p, q] =
              Some (q\<lparr>point.name := ''Predict'', point.price := Fin y,
                      predicted := Some True, confidence := Some ''High''\<rparr>)"
    using h by (simp add: predictNextDay_def Let_def r(1) y(1) c)
  show "\<exists>y. predictNextDay (Fin u) [p, q] =
              Some (q\<lparr>point.name := ''Predict'', point.price := Fin y,
                      predicted := Some True, confidence := Some ''High''\<rparr>)
         \<and> le (lit (1036 / 10)) (Fin y) \<and> le (Fin y) (lit (1044 / 10))"
    using pd b1 b2 by blast
qed

theorem predictNextDay_momentum_witness:
  "2 \<le> length [\<lparr>point.name = ''Thu'', point.price = Fin 100, date = ''2024-01-18'',
                    volume = Fin 51240900, predicted = None, confidence = None\<rparr>,
                   \<lparr>point.name = ''Fri'', point.price = Fin 102, date = ''2024-01-19'',
                    volume = Fin 39871200, predicted = None, confidence = None\<rparr>]
   \<and> is_double (1 / 2) \<and> (0::rat) \<le> 1 / 2 \<and> (1 / 2 :: rat) < 1
   \<and> (\<exists>y. predictNextDay (Fin (1 / 2))
             [\<lparr>point.name = ''Thu'', point.price = Fin 100, date = ''2024-01-18'',
               volume = Fin 51240900, predicted = None, confidence = None\<rparr>,
              \<lparr>point.name = ''Fri'', point.price = Fin 102, date = ''2024-01-19'',
               volume = Fin 39871200, predicted = None, confidence = None\<rparr>]
           = Some \<lparr>point.name = ''Predict'', point.price = Fin y, date = ''2024-01-19'',
                   volume = Fin 39871200, predicted = Some True, confidence = Some ''High''\<rparr>
         \<and> le (lit (1036 / 10)) (Fin y) \<and> le (Fin y) (lit (1044 / 10)))"
proof -
  have d: "is_double (1 / 2)" by code_simp
  from predictNextDay_momentum
    [where data = "[\<lparr>point.name = ''Thu'', point.price = Fin 100, date = ''2024-01-18'',
          volume = Fin 51240900, predicted = None, confidence = None\<rparr>,
         \<lparr>point.name = ''Fri'', point.price = Fin 102, date = ''2024-01-19'',
          volume = Fin 39871200, predicted = None, confidence = None\<rparr>]"
       and u = "1 / 2"
       and p = "\<lparr>point.name = ''Thu'', point.price = Fin 100, date = ''2024-01-18'',
          volume = Fin 51240900, predicted = None, confidence = None\<rparr>"
       and q = "\<lparr>point.name = ''Fri'', point.price = Fin 102, date = ''2024-01-19'',
          volume = Fin 39871200, predicted = None, confidence = None\<rparr>"] d
  show ?thesis by simp
qed

text \<open>
  C10. On the empty list the branch for fewer than two points reads \<open>data[0]\<close> of an
  empty array and returns \<open>undefined\<close>, no point; a list of exactly one point gives
  that point.
\<close>

theorem predictNextDay_empty:
  "predictNextDay w [] = None \<and> predictNextDay w [p] = Some p"
  by (simp add: predictNextDay_def)

section \<open>Properties of the dashboard\<close>

text \<open>
  C4. On \<open>null\<close> and on the empty list the classifier returns the default label. On a
  non-empty list it returns the label that the ladder \<open>> 2, > 1, > 0, > -1, > -2\<close>,
  otherwise, assigns to the average, which is never the default label; the average is the
  left-to-right sum of the percent changes divided by their number, in JavaScript
  arithmetic. That average is the rounded arithmetic mean when the running sums are
  exact, and in general lies within \<open>2\<^sup>K\<^sup>-\<^sup>5\<^sup>3\<close> of the arithmetic mean when the percent
  changes are finite and \<open>2\<^sup>K\<close> exceeds the sum of their absolute values. The demo quotes
  have the percent changes 1.27, 1.30, -0.65, 1.97, 1.80, whose mean is 1.138 up to the
  rounding of the literals; their average is above 1 and not above 2, and the label is
  the one of the \<open>> 1\<close> bucket. Two quotes of \<open>-2\<^sup>1\<^sup>0\<^sup>2\<^sup>3\<close> percent sum to \<open>-Infinity\<close>,
  their average is \<open>-Infinity\<close>, and the label is the last one of the ladder.
\<close>

theorem market_mood_ladder:
  "calculateMarketMood None = Sleeping
   \<and> calculateMarketMood (Some []) = Sleeping
   \<and> (qs \<noteq> [] \<longrightarrow>
        calculateMarketMood (Some qs) =
          (if gt (average qs) (Fin 2) then Rocket
           else if gt (average qs) (Fin 1) then Sunglasses
           else if gt (average qs) (Fin 0) then Smile
           else if gt (average qs) (Fin (- 1)) then Neutral
           else if gt (average qs) (Fin (- 2)) then Worried
           else Fire)
        \<and> calculateMarketMood (Some qs) \<noteq> Sleeping
        \<and> average qs =
            fdiv (foldl fadd (Fin 0) (map changesPercentage qs)) (Fin (of_nat (length qs))))
   \<and> (qs \<noteq> [] \<and> exact_sums qs \<longrightarrow>
        average qs = round_double (sum_list (map (fin_value \<circ> changesPercentage) qs) / of_nat (length qs)))
   \<and> (qs \<noteq> [] \<and> magnitude_below K qs \<longrightarrow>
        (\<exists>a. average qs = Fin a \<and> \<bar>a - exact_mean qs\<bar> \<le> 2 powi (K - 53)))
   \<and> map changesPercentage mockData
        = map lit [127 / 100, 130 / 100, - 65 / 100, 197 / 100, 180 / 100]
   \<and> magnitude_below 3 mockData \<and> \<bar>exact_mean mockData - 569 / 500\<bar> \<le> 1 / 10 ^ 15
   \<and> gt (average mockData) (Fin 1) \<and> \<not> gt (average mockData) (Fin 2)
   \<and> calculateMarketMood (Some mockData) = Sunglasses
   \<and> is_double (- (2 powi 1023))
   \<and> average [plunge, plunge] = NInf
   \<and> calculateMarketMood (Some [plunge, plunge]) = Fire"
proof -
  have c1: "calculateMarketMood None = Sleeping"
    and c2: "calculateMarketMood (Some []) = Sleeping"
    by (simp_all add: calculateMarketMood_def)
  have c3: "calculateMarketMood (Some qs) =
          (if gt (average qs) (Fin 2) then Rocket
           else if gt (average qs) (Fin 1) then Sunglasses
           else if gt (average qs) (Fin 0) then Smile
           else if gt (average qs) (Fin (- 1)) then Neutral
           else if gt (average qs) (Fin (- 2)) then Worried
           else Fire)"
    and c4: "calculateMarketMood (Some qs) \<noteq> Sleeping" if "qs \<noteq> []"
    using that by (simp_all add: calculateMarketMood_def ladder_def)
  have c5: "average qs =
            fdiv (foldl fadd (Fin 0) (map changesPercentage qs)) (Fin (of_nat (length qs)))"
    by (simp add: average_def reduce_as_foldl)
  have c6: "average qs = round_double (sum_list (map (fin_value \<circ> changesPercentage) qs) / of_nat (length qs))"
    if "qs \<noteq> [] \<and> exact_sums qs"
    using that by (simp add: average_exact)
  have c7: "map changesPercentage mockData
        = map lit [127 / 100, 130 / 100, - 65 / 100, 197 / 100, 180 / 100]"
    by (simp add: mockData_def)
  have c8: "gt (average mockData) (Fin 1)" by code_simp
  have c9: "\<not> gt (average mockData) (Fin 2)" by code_simp
  have c10: "calculateMarketMood (Some mockData) = Sunglasses" by code_simp
  have c11: "\<exists>a. average qs = Fin a \<and> \<bar>a - exact_mean qs\<bar> \<le> 2 powi (K - 53)"
    if "qs \<noteq> [] \<and> magnitude_below K qs"
    using that average_near [of qs K] by blast
  have c12: "magnitude_below 3 mockData" by code_simp
  have c13: "\<bar>exact_mean mockData - 569 / 500\<bar> \<le> 1 / 10 ^ 15" by code_simp
  have c14: "is_double (- (2 powi 1023))"
    unfolding is_double_def using round_double_neg_pow2 [of 1023] by simp
  have c15: "average [plunge, plunge] = NInf" by (rule plunge_average)
  have c16: "calculateMarketMood (Some [plunge, plunge]) = Fire"
    by (simp add: calculateMarketMood_def c15 ladder_def gt_def)
  show ?thesis
    using c1 c2 c3 c4 c5 c6 c7 c8 c9 c10 c11 c12 c13 c14 c15 c16 by blast
qed

theorem market_mood_ladder_witness:
  "[pct (5 / 2)] \<noteq> [] \<and> exact_sums [pct (5 / 2)] \<and> magnitude_below 2 [pct (5 / 2)]
   \<and> average [pct (5 / 2)] = Fin (5 / 2)
   \<and> calculateMarketMood (Some [pct (5 / 2)]) = Rocket"
proof -
  have e: "exact_sums [pct (5 / 2)]" by code_simp
  have m: "magnitude_below 2 [pct (5 / 2)]" by code_simp
  have a: "average [pct (5 / 2)] = Fin (5 / 2)" by code_simp
  have g: "gt (Fin (5 / 2)) (Fin 2)" by (simp add: gt_def)
  from market_mood_ladder [of "[pct (5 / 2)]" 2] e m a g show ?thesis by simp
qed




text \<open>
  C8. Mounting the dashboard registers \<open>fetchDashboardData\<close> with a period of 60000 ms.
  While the view stays mounted, the registered interval runs the callback exactly at
  60000, 120000, ... ms after the mount. Once the cleanup has run at teardown, however
  much time passes afterwards, the interval makes no further run and no registration
  with its identifier is left.
\<close>

theorem dashboard_refresh_timer:
  "intervals (snd (mount h)) =
     intervals h @ [\<lparr>ident = fst (mount h), period = 60000, due = now h + 60000,
                     callback = FetchDashboardData\<rparr>]
   \<and> (fresh_ids h \<longrightarrow>
        runs_of (fst (mount h)) (elapse dt (snd (mount h)))
          = map (\<lambda>k. (now h + 60000 * (k + 1), FetchDashboardData)) [0 ..< dt div 60000])
   \<and> runs_of (fst (mount h)) (elapses dts (cleanup (fst (mount h)) (elapse dt (snd (mount h)))))
       = runs_of (fst (mount h)) (elapse dt (snd (mount h)))
   \<and> (\<forall>t \<in> set (intervals (elapses dts (cleanup (fst (mount h)) (elapse dt (snd (mount h)))))).
         ident t \<noteq> fst (mount h))"
proof -
  let ?i = "fst (mount h)" and ?h = "elapse dt (snd (mount h))"
  have a: "intervals (snd (mount h)) =
     intervals h @ [\<lparr>ident = fst (mount h), period = 60000, due = now h + 60000,
                     callback = FetchDashboardData\<rparr>]"
    by (simp add: mount_def setInterval_def call_def)
  have b: "fresh_ids h \<longrightarrow>
        runs_of ?i ?h = map (\<lambda>k. (now h + 60000 * (k + 1), FetchDashboardData)) [0 ..< dt div 60000]"
    using mount_runs by blast
  have c: "runs_of ?i (elapses dts (cleanup ?i ?h)) = runs_of ?i (cleanup ?i ?h)
           \<and> (\<forall>t \<in> set (intervals (elapses dts (cleanup ?i ?h))). ident t \<noteq> ?i)"
    unfolding cleanup_def by (rule elapses_cleared) (rule clearInterval_cleared)
  have d: "runs_of ?i (cleanup ?i ?h) = runs_of ?i ?h"
    by (simp add: cleanup_def runs_of_clearInterval)
  from a b c d show ?thesis by simp
qed

theorem dashboard_refresh_timer_witness:
  "fresh_ids host_initial
   \<and> runs_of (fst (mount host_initial)) (elapse 150000 (snd (mount host_initial)))
       = [(60000, FetchDashboardData), (120000, FetchDashboardData)]
   \<and> runs_of (fst (mount host_initial))
         (elapses [60000, 60000]
            (cleanup (fst (mount host_initial)) (elapse 150000 (snd (mount host_initial)))))
       = [(60000, FetchDashboardData), (120000, FetchDashboardData)]"
proof -
  have f: "fresh_ids host_initial" by (simp add: fresh_ids_def host_initial_def)
  have n: "now host_initial = 0" by (simp add: host_initial_def)
  have u: "[0 ..< (2::nat)] = [0, 1]" by (simp add: upt_rec)
  from dashboard_refresh_timer [of host_initial 150000 "[60000, 60000]"] f
  show ?thesis by (simp add: n u)
qed

end
